theory Spec2Isabelle
  imports Main
begin

section \<open>JavaScript values\<close>

text \<open>
  The values that reach \<^verbatim>\<open>src/lib/index.js\<close> from the wire are the results of
  \<^verbatim>\<open>JSON.parse\<close>, plus \<^verbatim>\<open>undefined\<close> for a property that is absent.
  Strings are byte lists holding the UTF-8 form of the text. A number is an IEEE double:
  \<open>JNum m k\<close> is the double with the decimal expansion \<open>m / 10 ^ k\<close>, in canonical form
  (\<open>k = 0\<close> or \<open>m\<close> not divisible by ten; every finite double has such an expansion),
  \<open>JNum 0 0\<close> is the positive zero, and the negative zero, the two infinities and NaN
  have constructors of their own. An object is an association list with distinct keys, in
  insertion order.
\<close>

datatype jsval =
    JUndef
  | JNull
  | JBool bool
  | JNum int nat
  | JNegZero
  | JInfinity
  | JNegInfinity
  | JNaN
  | JStr string
  | JArr "jsval list"
  | JObj "(string \<times> jsval) list"

type_synonym jsobj = "(string \<times> jsval) list"

datatype js_error = SyntaxError | TypeError

subsection \<open>Doubles\<close>

text \<open>
  \<open>binary64 n d\<close> is the double nearest to the fraction \<open>n / d\<close> (with \<open>0 \<le> n\<close> and
  \<open>0 < d\<close>), ties to the even mantissa: \<open>Some (m, e)\<close> stands for \<open>m * 2 ^ e\<close>, with
  \<open>m < 2 ^ 53\<close> and \<open>- 1074 \<le> e \<le> 971\<close>, and \<open>None\<close> for a fraction that rounds to
  infinity. A fraction below half of the least positive double rounds to zero.
\<close>

function bit_length :: "int \<Rightarrow> int" where
  "bit_length n = (if n \<le> 0 then 0 else 1 + bit_length (n div 2))"
  by pat_completeness auto
termination
  by (relation "measure nat") auto

declare bit_length.simps [simp del]

definition round_half_even :: "int \<Rightarrow> int \<Rightarrow> int" where
  "round_half_even n d =
     (let q = n div d; r = n mod d in
      if 2 * r < d then q
      else if d < 2 * r then q + 1
      else if even q then q else q + 1)"

definition binary64 :: "int \<Rightarrow> int \<Rightarrow> (int \<times> int) option" where
  "binary64 n d =
     (if n = 0 then Some (0, 0)
      else
        let l = bit_length n - bit_length d;
            above = (if 0 \<le> l then d * 2 ^ nat l \<le> n else d \<le> n * 2 ^ nat (- l));
            e = max ((if above then l else l - 1) - 52) (- 1074);
            m = (if 0 \<le> e then round_half_even n (d * 2 ^ nat e)
                 else round_half_even (n * 2 ^ nat (- e)) d);
            m' = (if m = 2 ^ 53 then 2 ^ 52 else m);
            e' = (if m = 2 ^ 53 then e + 1 else e)
        in if 971 < e' then None else Some (m', e'))"

text \<open>The mantissa made odd, as far as the negative exponent allows.\<close>

fun dyadic :: "int \<Rightarrow> nat \<Rightarrow> int \<times> nat" where
  "dyadic m 0 = (m, 0)"
| "dyadic m (Suc j) = (if even m then dyadic (m div 2) j else (m, Suc j))"

text \<open>The number that a literal of the value \<open>n / d\<close>, with or without a minus sign, is
  read as: \<open>m * 2 ^ (- j)\<close> with \<open>m\<close> odd is the decimal \<open>m * 5 ^ j / 10 ^ j\<close>.\<close>

definition number_of :: "bool \<Rightarrow> int \<Rightarrow> int \<Rightarrow> jsval" where
  "number_of negative n d =
     (case binary64 n d of
        None \<Rightarrow> if negative then JNegInfinity else JInfinity
      | Some (m, e) \<Rightarrow>
          if m = 0 then (if negative then JNegZero else JNum 0 0)
          else
            let (m', j) = (if 0 \<le> e then (m * 2 ^ nat e, 0) else dyadic m (nat (- e)));
                a = m' * 5 ^ j
            in JNum (if negative then - a else a) j)"

subsection \<open>Conversion to string\<close>

definition digit_char :: "int \<Rightarrow> char" where
  "digit_char d = char_of (48 + d)"

function dec :: "int \<Rightarrow> string" where
  "dec n = (if n < 10 then [digit_char n] else dec (n div 10) @ [digit_char (n mod 10)])"
  by pat_completeness auto
termination
  by (relation "measure nat") auto

declare dec.simps [simp del]

text \<open>
  \<^verbatim>\<open>Number::toString\<close> of ECMAScript: the shortest decimal digits \<open>s\<close>, with the
  exponent \<open>t\<close> of the last digit, such that \<open>s * 10 ^ t\<close> is read back as the same
  double, and of two such the one nearer to the double (the even one at a tie); then the
  notation that the number of digits before the point, \<open>n\<close>, selects.
\<close>

definition times_pow10 :: "int \<Rightarrow> int \<Rightarrow> int \<Rightarrow> int \<times> int" where
  "times_pow10 n d t = (if 0 \<le> t then (n * 10 ^ nat t, d) else (n, d * 10 ^ nat (- t)))"

definition floor_log10 :: "int \<Rightarrow> int \<Rightarrow> int" where
  "floor_log10 n d =
     (if d \<le> n then int (length (dec (n div d))) - 1
      else (case find (\<lambda>j. d \<le> n * 10 ^ j) [1..<400] of None \<Rightarrow> 0 | Some j \<Rightarrow> - int j))"

definition reads_as :: "int \<times> int \<Rightarrow> int \<times> int \<Rightarrow> bool" where
  "reads_as x c =
     (binary64 (fst (times_pow10 (fst c) 1 (snd c))) (snd (times_pow10 (fst c) 1 (snd c))) =
        Some x)"

definition shortest_at ::
  "int \<times> int \<Rightarrow> int \<times> int \<Rightarrow> int \<Rightarrow> nat \<Rightarrow> (int \<times> int) option" where
  "shortest_at x frac E k =
     (let t = E - int k + 1;
          sc = times_pow10 (fst frac) (snd frac) (- t);
          lo = fst sc div snd sc;
          r = fst sc mod snd sc;
          hi = (if lo + 1 < 10 ^ k then (lo + 1, t) else (1, t + int k));
          ok_lo = reads_as x (lo, t);
          ok_hi = reads_as x hi
      in if ok_lo \<and> ok_hi then
           (if 2 * r < snd sc \<or> (2 * r = snd sc \<and> even lo) then Some (lo, t) else Some hi)
         else if ok_lo then Some (lo, t)
         else if ok_hi then Some hi
         else None)"

fun first_some :: "('a \<Rightarrow> 'b option) \<Rightarrow> 'a list \<Rightarrow> 'b option" where
  "first_some f [] = None"
| "first_some f (x # xs) = (case f x of None \<Rightarrow> first_some f xs | Some y \<Rightarrow> Some y)"

definition format_number :: "string \<Rightarrow> int \<Rightarrow> string" where
  "format_number ds n =
     (let k = int (length ds) in
      if k \<le> n \<and> n \<le> 21 then ds @ replicate (nat (n - k)) (CHR ''0'')
      else if 0 < n \<and> n \<le> 21 then take (nat n) ds @ CHR ''.'' # drop (nat n) ds
      else if - 6 < n \<and> n \<le> 0 then
        CHR ''0'' # CHR ''.'' # replicate (nat (- n)) (CHR ''0'') @ ds
      else
        (if k = 1 then ds else hd ds # CHR ''.'' # tl ds) @ CHR ''e'' #
        (if n - 1 < 0 then CHR ''-'' else CHR ''+'') # dec \<bar>n - 1\<bar>)"

text \<open>On a decimal that is not itself a double, the conversion is that of the double it
  rounds to. Seventeen digits identify any double, so the search ends with digits.\<close>

definition Number_toString :: "int \<Rightarrow> nat \<Rightarrow> string" where
  "Number_toString m k =
     (let sign = (if m < 0 then [CHR ''-''] else []) in
      (case binary64 \<bar>m\<bar> (10 ^ k) of
         None \<Rightarrow> sign @ ''Infinity''
       | Some x \<Rightarrow>
           if fst x = 0 then ''0''
           else
             (let frac = (if 0 \<le> snd x then (fst x * 2 ^ nat (snd x), 1)
                          else (fst x, 2 ^ nat (- snd x)));
                  E = floor_log10 (fst frac) (snd frac)
              in (case first_some (shortest_at x frac E) [1..<18] of
                    None \<Rightarrow> sign @ ''NaN''
                  | Some c \<Rightarrow>
                      sign @
                      format_number (dec (fst c)) (snd c + int (length (dec (fst c))))))))"

text \<open>
  \<^verbatim>\<open>ToString\<close>, with \<^verbatim>\<open>Array.prototype.join\<close> for an array (elements separated by a
  comma, \<^verbatim>\<open>null\<close> and \<^verbatim>\<open>undefined\<close> printed as the empty string) and
  \<^verbatim>\<open>Object.prototype.toString\<close> for a plain object. A decoded object that has a member
  of its own named \<^verbatim>\<open>toString\<close> has no conversion: the member shadows the inherited
  method and is not a function, which is a TypeError (\<open>None\<close>), also inside an array.
\<close>

fun ToString :: "jsval \<Rightarrow> string option"
  and Array_join :: "jsval list \<Rightarrow> string option" where
  "ToString JUndef = Some ''undefined''"
| "ToString JNull = Some ''null''"
| "ToString (JBool b) = Some (if b then ''true'' else ''false'')"
| "ToString (JNum m k) = Some (Number_toString m k)"
| "ToString JNegZero = Some ''0''"
| "ToString JInfinity = Some ''Infinity''"
| "ToString JNegInfinity = Some ''-Infinity''"
| "ToString JNaN = Some ''NaN''"
| "ToString (JStr s) = Some s"
| "ToString (JArr xs) = Array_join xs"
| "ToString (JObj kvs) =
     (if map_of kvs ''toString'' = None then Some ''[object Object]'' else None)"
| "Array_join [] = Some []"
| "Array_join (x # xs) =
     (case (if x = JNull \<or> x = JUndef then Some [] else ToString x) of
        None \<Rightarrow> None
      | Some s \<Rightarrow>
          if xs = [] then Some s
          else (case Array_join xs of None \<Rightarrow> None | Some r \<Rightarrow> Some (s @ CHR '','' # r)))"

subsection \<open>Objects\<close>

definition obj_get :: "jsobj \<Rightarrow> string \<Rightarrow> jsval" where
  "obj_get obj k = (case map_of obj k of None \<Rightarrow> JUndef | Some v \<Rightarrow> v)"

fun obj_set :: "string \<Rightarrow> jsval \<Rightarrow> jsobj \<Rightarrow> jsobj" where
  "obj_set k v [] = [(k, v)]"
| "obj_set k v (p # ps) = (if fst p = k then (k, v) # ps else p # obj_set k v ps)"

text \<open>The object spread \<^verbatim>\<open>{...target, ...src}\<close>: the properties of \<open>src\<close> are written
  over those of \<open>target\<close>, in order.\<close>

definition obj_spread :: "jsobj \<Rightarrow> jsobj \<Rightarrow> jsobj" where
  "obj_spread target src = fold (\<lambda>(k, v). obj_set k v) src target"

section \<open>\<^verbatim>\<open>JSON.parse\<close> and \<^verbatim>\<open>JSON.stringify\<close>\<close>

text \<open>
  The two built-in functions the source calls, after the JSON grammar of ECMAScript: white
  space is space, tab, line feed and carriage return; a string may not hold a raw control
  character; a \<^verbatim>\<open>\u\<close> escape gives a UTF-16 code unit, and a high surrogate followed by
  a low one is a single code point; a member given twice keeps its first position and its
  last value; a number literal is rounded to the nearest double. The parser runs
  on fuel, one unit for each nesting of a call, and
  \<open>JSON_parse\<close> gives it more than the length of the text.
\<close>

subsection \<open>Parsing\<close>

definition is_ws :: "char \<Rightarrow> bool" where
  "is_ws c \<longleftrightarrow> c = CHR '' '' \<or> c = CHR 0x09 \<or> c = CHR 0x0A \<or> c = CHR 0x0D"

definition skip_ws :: "string \<Rightarrow> string" where
  "skip_ws s = dropWhile is_ws s"

definition is_digit :: "char \<Rightarrow> bool" where
  "is_digit c \<longleftrightarrow> (48::nat) \<le> of_char c \<and> of_char c \<le> (57::nat)"

definition digit_val :: "char \<Rightarrow> int" where
  "digit_val c = of_char c - 48"

definition int_of_digits :: "string \<Rightarrow> int" where
  "int_of_digits ds = foldl (\<lambda>n c. 10 * n + digit_val c) 0 ds"

definition hexval :: "char \<Rightarrow> nat option" where
  "hexval c =
     (let n = of_char c in
      if 48 \<le> n \<and> n \<le> 57 then Some (n - 48)
      else if 97 \<le> n \<and> n \<le> 102 then Some (n - 87)
      else if 65 \<le> n \<and> n \<le> 70 then Some (n - 55)
      else None)"

definition hex4 :: "char \<Rightarrow> char \<Rightarrow> char \<Rightarrow> char \<Rightarrow> nat option" where
  "hex4 a b c d =
     (case (hexval a, hexval b, hexval c, hexval d) of
        (Some p, Some q, Some r, Some s) \<Rightarrow> Some (((p * 16 + q) * 16 + r) * 16 + s)
      | _ \<Rightarrow> None)"

definition escape_char :: "char \<Rightarrow> char option" where
  "escape_char e =
     (if e = CHR 0x22 then Some (CHR 0x22)
      else if e = CHR 0x5C then Some (CHR 0x5C)
      else if e = CHR ''/'' then Some (CHR ''/'')
      else if e = CHR ''b'' then Some (CHR 0x08)
      else if e = CHR ''f'' then Some (CHR 0x0C)
      else if e = CHR ''n'' then Some (CHR 0x0A)
      else if e = CHR ''r'' then Some (CHR 0x0D)
      else if e = CHR ''t'' then Some (CHR 0x09)
      else None)"

text \<open>The content of a string literal: a byte of the text, or the UTF-16 code unit of a
  \<^verbatim>\<open>\u\<close> escape.\<close>

datatype code_unit = Byte char | Unit nat

fun string_chars :: "string \<Rightarrow> (code_unit list \<times> string) option" where
  "string_chars [] = None"
| "string_chars (c # cs) =
     (if c = CHR 0x22 then Some ([], cs)
      else if c = CHR 0x5C then
        (case cs of
           [] \<Rightarrow> None
         | e # r \<Rightarrow>
             if e = CHR ''u'' then
               (case r of
                  h1 # h2 # h3 # h4 # r' \<Rightarrow>
                    (case hex4 h1 h2 h3 h4 of
                       None \<Rightarrow> None
                     | Some n \<Rightarrow> map_option (apfst (Cons (Unit n))) (string_chars r'))
                | _ \<Rightarrow> None)
             else
               (case escape_char e of
                  None \<Rightarrow> None
                | Some x \<Rightarrow> map_option (apfst (Cons (Byte x))) (string_chars r)))
      else if of_char c < (32::nat) then None
      else map_option (apfst (Cons (Byte c))) (string_chars cs))"

definition utf8 :: "nat \<Rightarrow> string" where
  "utf8 cp =
     (if cp < 0x80 then [char_of cp]
      else if cp < 0x800 then [char_of (0xC0 + cp div 64), char_of (0x80 + cp mod 64)]
      else if cp < 0x10000 then
        [char_of (0xE0 + cp div 4096), char_of (0x80 + cp div 64 mod 64), char_of (0x80 + cp mod 64)]
      else
        [char_of (0xF0 + cp div 262144), char_of (0x80 + cp div 4096 mod 64),
         char_of (0x80 + cp div 64 mod 64), char_of (0x80 + cp mod 64)])"

fun units_to_string :: "code_unit list \<Rightarrow> string" where
  "units_to_string [] = []"
| "units_to_string (Byte c # us) = c # units_to_string us"
| "units_to_string (Unit hi # Unit lo # us) =
     (if 0xD800 \<le> hi \<and> hi < 0xDC00 \<and> 0xDC00 \<le> lo \<and> lo < 0xE000
      then utf8 (0x10000 + (hi - 0xD800) * 0x400 + (lo - 0xDC00)) @ units_to_string us
      else utf8 hi @ units_to_string (Unit lo # us))"
| "units_to_string (Unit u # us) = utf8 u @ units_to_string us"

definition parse_int_part :: "string \<Rightarrow> (string \<times> string) option" where
  "parse_int_part s =
     (case s of
        [] \<Rightarrow> None
      | c # r \<Rightarrow>
          if c = CHR ''0'' then Some ([c], r)
          else if is_digit c then Some (takeWhile is_digit s, dropWhile is_digit s)
          else None)"

definition parse_frac_part :: "string \<Rightarrow> (string \<times> string) option" where
  "parse_frac_part s =
     (case s of
        c # r \<Rightarrow>
          if c = CHR ''.'' then
            (if takeWhile is_digit r = [] then None
             else Some (takeWhile is_digit r, dropWhile is_digit r))
          else Some ([], s)
      | [] \<Rightarrow> Some ([], s))"

definition parse_exp_digits :: "bool \<Rightarrow> string \<Rightarrow> (int \<times> string) option" where
  "parse_exp_digits neg s =
     (if takeWhile is_digit s = [] then None
      else Some ((if neg then - int_of_digits (takeWhile is_digit s)
                  else int_of_digits (takeWhile is_digit s)),
                 dropWhile is_digit s))"

definition parse_exp_part :: "string \<Rightarrow> (int \<times> string) option" where
  "parse_exp_part s =
     (case s of
        c # r \<Rightarrow>
          if c = CHR ''e'' \<or> c = CHR ''E'' then
            (case r of
               d # r' \<Rightarrow>
                 if d = CHR ''+'' then parse_exp_digits False r'
                 else if d = CHR ''-'' then parse_exp_digits True r'
                 else parse_exp_digits False r
             | [] \<Rightarrow> None)
          else Some (0, s)
      | [] \<Rightarrow> Some (0, s))"

definition parse_number :: "string \<Rightarrow> (jsval \<times> string) option" where
  "parse_number s =
     (let neg = (case s of c # r \<Rightarrow> c = CHR ''-'' | [] \<Rightarrow> False);
          s1 = (if neg then tl s else s) in
      case parse_int_part s1 of
        None \<Rightarrow> None
      | Some (ds, s2) \<Rightarrow>
          (case parse_frac_part s2 of
             None \<Rightarrow> None
           | Some (fs, s3) \<Rightarrow>
               (case parse_exp_part s3 of
                  None \<Rightarrow> None
                | Some (e, s4) \<Rightarrow>
                    let v = times_pow10 (int_of_digits (ds @ fs)) 1 (e - int (length fs)) in
                    Some (number_of neg (fst v) (snd v), s4))))"

definition parse_keyword :: "string \<Rightarrow> (jsval \<times> string) option" where
  "parse_keyword s =
     (if take 4 s = ''null'' then Some (JNull, drop 4 s)
      else if take 4 s = ''true'' then Some (JBool True, drop 4 s)
      else if take 5 s = ''false'' then Some (JBool False, drop 5 s)
      else None)"

fun parse_value :: "nat \<Rightarrow> string \<Rightarrow> (jsval \<times> string) option"
  and parse_elements :: "nat \<Rightarrow> string \<Rightarrow> (jsval list \<times> string) option"
  and parse_members :: "nat \<Rightarrow> jsobj \<Rightarrow> string \<Rightarrow> (jsobj \<times> string) option" where
  "parse_value 0 s = None"
| "parse_value (Suc n) s =
     (case skip_ws s of
        [] \<Rightarrow> None
      | c # cs \<Rightarrow>
          if c = CHR ''{'' then
            (case skip_ws cs of
               [] \<Rightarrow> None
             | d # ds \<Rightarrow>
                 if d = CHR ''}'' then Some (JObj [], ds)
                 else map_option (apfst JObj) (parse_members n [] (d # ds)))
          else if c = CHR ''['' then
            (case skip_ws cs of
               [] \<Rightarrow> None
             | d # ds \<Rightarrow>
                 if d = CHR '']'' then Some (JArr [], ds)
                 else map_option (apfst JArr) (parse_elements n (d # ds)))
          else if c = CHR 0x22 then
            map_option (apfst (\<lambda>us. JStr (units_to_string us))) (string_chars cs)
          else if c = CHR ''-'' \<or> is_digit c then parse_number (c # cs)
          else parse_keyword (c # cs))"
| "parse_elements 0 s = None"
| "parse_elements (Suc n) s =
     (case parse_value n s of
        None \<Rightarrow> None
      | Some (v, r) \<Rightarrow>
          (case skip_ws r of
             [] \<Rightarrow> None
           | c # cs \<Rightarrow>
               if c = CHR '','' then map_option (apfst (Cons v)) (parse_elements n cs)
               else if c = CHR '']'' then Some ([v], cs)
               else None))"
| "parse_members 0 acc s = None"
| "parse_members (Suc n) acc s =
     (case skip_ws s of
        [] \<Rightarrow> None
      | q # cs \<Rightarrow>
          if q = CHR 0x22 then
            (case string_chars cs of
               None \<Rightarrow> None
             | Some (us, r) \<Rightarrow>
                 (case skip_ws r of
                    [] \<Rightarrow> None
                  | d # ds \<Rightarrow>
                      if d = CHR '':'' then
                        (case parse_value n ds of
                           None \<Rightarrow> None
                         | Some (v, r') \<Rightarrow>
                             (case skip_ws r' of
                                [] \<Rightarrow> None
                              | e # es \<Rightarrow>
                                  if e = CHR '','' then
                                    parse_members n (obj_set (units_to_string us) v acc) es
                                  else if e = CHR ''}'' then
                                    Some (obj_set (units_to_string us) v acc, es)
                                  else None))
                      else None))
          else None)"

definition JSON_parse :: "string \<Rightarrow> js_error + jsval" where
  "JSON_parse text =
     (case parse_value (Suc (length text)) text of
        None \<Rightarrow> Inl SyntaxError
      | Some (v, r) \<Rightarrow> if skip_ws r = [] then Inr v else Inl SyntaxError)"

subsection \<open>Serialisation\<close>

definition hex_digit :: "nat \<Rightarrow> char" where
  "hex_digit n = (if n < 10 then char_of (48 + n) else char_of (87 + n))"

text \<open>\<^verbatim>\<open>QuoteJSONString\<close>: the short escapes, \<^verbatim>\<open>\u00XX\<close> for the other control
  characters, every other byte as it is.\<close>

definition quote_char :: "char \<Rightarrow> string" where
  "quote_char c =
     (if c = CHR 0x08 then [CHR 0x5C, CHR ''b'']
      else if c = CHR 0x09 then [CHR 0x5C, CHR ''t'']
      else if c = CHR 0x0A then [CHR 0x5C, CHR ''n'']
      else if c = CHR 0x0C then [CHR 0x5C, CHR ''f'']
      else if c = CHR 0x0D then [CHR 0x5C, CHR ''r'']
      else if c = CHR 0x22 then [CHR 0x5C, CHR 0x22]
      else if c = CHR 0x5C then [CHR 0x5C, CHR 0x5C]
      else if of_char c < (32::nat) then
        [CHR 0x5C, CHR ''u'', CHR ''0'', CHR ''0'',
         hex_digit (of_char c div 16), hex_digit (of_char c mod 16)]
      else [c])"

definition QuoteJSONString :: "string \<Rightarrow> string" where
  "QuoteJSONString s = CHR 0x22 # concat (map quote_char s) @ [CHR 0x22]"

fun join_commas :: "string list \<Rightarrow> string" where
  "join_commas [] = []"
| "join_commas [x] = x"
| "join_commas (x # y # ys) = x @ CHR '','' # join_commas (y # ys)"

text \<open>
  \<^verbatim>\<open>JSON.stringify\<close> without indentation: a member whose value is \<^verbatim>\<open>undefined\<close> is
  left out, an \<^verbatim>\<open>undefined\<close> array element is printed as \<^verbatim>\<open>null\<close>. For
  \<^verbatim>\<open>undefined\<close> itself the built-in returns \<^verbatim>\<open>undefined\<close>, which a string
  concatenation prints as below; \<^verbatim>\<open>write\<close> always passes an object.
\<close>

fun JSON_stringify :: "jsval \<Rightarrow> string"
  and element_texts :: "jsval list \<Rightarrow> string list"
  and member_texts :: "jsobj \<Rightarrow> string list" where
  "JSON_stringify JUndef = ''undefined''"
| "JSON_stringify JNull = ''null''"
| "JSON_stringify (JBool b) = (if b then ''true'' else ''false'')"
| "JSON_stringify (JNum m k) = Number_toString m k"
| "JSON_stringify JNegZero = ''0''"
| "JSON_stringify JInfinity = ''null''"
| "JSON_stringify JNegInfinity = ''null''"
| "JSON_stringify JNaN = ''null''"
| "JSON_stringify (JStr s) = QuoteJSONString s"
| "JSON_stringify (JArr xs) = CHR ''['' # join_commas (element_texts xs) @ '']''"
| "JSON_stringify (JObj kvs) = CHR ''{'' # join_commas (member_texts kvs) @ ''}''"
| "element_texts [] = []"
| "element_texts (x # xs) =
     (if x = JUndef then ''null'' else JSON_stringify x) # element_texts xs"
| "member_texts [] = []"
| "member_texts (p # kvs) =
     (if snd p = JUndef then member_texts kvs
      else (QuoteJSONString (fst p) @ CHR '':'' # JSON_stringify (snd p)) # member_texts kvs)"

section \<open>The JavaScript operations of the source\<close>

text \<open>
  Reading one of the properties \<^verbatim>\<open>type\<close>, \<^verbatim>\<open>data\<close>, \<^verbatim>\<open>id\<close> and
  \<^verbatim>\<open>event\<close>, the only ones the source reads from a decoded value: \<^verbatim>\<open>null\<close> and
  \<^verbatim>\<open>undefined\<close> raise a TypeError (\<open>None\<close>); a number, a boolean, a string and an
  array have no property of these names.
\<close>

definition get_prop :: "jsval \<Rightarrow> string \<Rightarrow> jsval option" where
  "get_prop v k =
     (case v of
        JUndef \<Rightarrow> None
      | JNull \<Rightarrow> None
      | JObj kvs \<Rightarrow> Some (obj_get kvs k)
      | _ \<Rightarrow> Some JUndef)"

text \<open>
  The loose comparison \<^verbatim>\<open>v == 'lit'\<close> with one of the literals of the source
  (\<^verbatim>\<open>'event'\<close>, \<^verbatim>\<open>'close'\<close>, \<^verbatim>\<open>'internalEvent'\<close>, \<^verbatim>\<open>'bindCallback'\<close>), none of
  which reads as a number: a string is compared as it is; an array and an object are
  converted to a string first, which is a TypeError (\<open>None\<close>) when they have no conversion;
  nothing else is equal to the literal.
\<close>

definition loose_eq :: "jsval \<Rightarrow> string \<Rightarrow> bool option" where
  "loose_eq v lit =
     (case v of
        JStr s \<Rightarrow> Some (s = lit)
      | JArr xs \<Rightarrow> map_option (\<lambda>s. s = lit) (ToString v)
      | JObj kvs \<Rightarrow> map_option (\<lambda>s. s = lit) (ToString v)
      | _ \<Rightarrow> Some False)"

fun truthy :: "jsval \<Rightarrow> bool" where
  "truthy JUndef = False"
| "truthy JNull = False"
| "truthy (JBool b) = b"
| "truthy (JNum m k) = (m \<noteq> 0)"
| "truthy JNegZero = False"
| "truthy JInfinity = True"
| "truthy JNegInfinity = True"
| "truthy JNaN = False"
| "truthy (JStr s) = (s \<noteq> [])"
| "truthy (JArr xs) = True"
| "truthy (JObj kvs) = True"

text \<open>The code points of a string, each as a string of its own: a byte of the form
  \<^verbatim>\<open>10xxxxxx\<close> continues the code point before it.\<close>

definition is_continuation :: "char \<Rightarrow> bool" where
  "is_continuation c \<longleftrightarrow> (128::nat) \<le> of_char c \<and> of_char c < (192::nat)"

function code_points :: "string \<Rightarrow> string list" where
  "code_points [] = []"
| "code_points (c # cs) =
     (c # takeWhile is_continuation cs) # code_points (dropWhile is_continuation cs)"
  by pat_completeness auto
termination
  by (relation "measure length") (auto simp: less_Suc_eq_le length_dropWhile_le)

text \<open>The argument list of a spread call \<^verbatim>\<open>f(...args)\<close>: the elements of an array, the
  code points of a string; nothing else that is decoded from JSON can be iterated, which is
  a TypeError (\<open>None\<close>).\<close>

definition spread_args :: "jsval \<Rightarrow> jsval list option" where
  "spread_args v =
     (case v of
        JArr xs \<Rightarrow> Some xs
      | JStr s \<Rightarrow> Some (map JStr (code_points s))
      | _ \<Rightarrow> None)"

subsection \<open>The array of callbacks\<close>

text \<open>
  An entry of the array is a callable of the host (\<open>Some f\<close>) or nothing that can be
  called (\<open>None\<close>): a hole, or a decoded value stored by \<^verbatim>\<open>push\<close> or \<^verbatim>\<open>unshift\<close>,
  which is never a function. The source only ever calls an entry, and calling either kind
  of \<open>None\<close> is the same TypeError. A store beyond the end extends the array with holes.
\<close>

definition array_set :: "'a option list \<Rightarrow> nat \<Rightarrow> 'a \<Rightarrow> 'a option list" where
  "array_set xs i v =
     (if i < length xs then xs[i := Some v]
      else xs @ replicate (i - length xs) None @ [Some v])"

text \<open>
  The array inherits the methods of \<^verbatim>\<open>Array.prototype\<close>, and a read
  \<^verbatim>\<open>callbacks[id]\<close> with the name of one of them gives that method. Modelled are the
  five that change the array whatever their arguments are; the call
  \<^verbatim>\<open>callbacks[id](...args)\<close> runs them on the array of callbacks itself.
\<close>

datatype array_method = Pop | Push | Shift | Unshift | Reverse

definition method_of_key :: "string \<Rightarrow> array_method option" where
  "method_of_key s =
     (if s = ''pop'' then Some Pop
      else if s = ''push'' then Some Push
      else if s = ''shift'' then Some Shift
      else if s = ''unshift'' then Some Unshift
      else if s = ''reverse'' then Some Reverse
      else None)"

fun call_method :: "array_method \<Rightarrow> 'a option list \<Rightarrow> jsval list \<Rightarrow> 'a option list" where
  "call_method Pop xs argv = butlast xs"
| "call_method Push xs argv = xs @ map (\<lambda>v. None) argv"
| "call_method Shift xs argv = tl xs"
| "call_method Unshift xs argv = map (\<lambda>v. None) argv @ xs"
| "call_method Reverse xs argv = rev xs"

text \<open>
  What \<^verbatim>\<open>callbacks[id]\<close> reads. The identifier is turned into a property key. The key
  of a number is an index when the number is a natural number (the negative zero has the
  key \<^verbatim>\<open>0\<close>) and names no property otherwise; so do the keys of \<^verbatim>\<open>null\<close>,
  \<^verbatim>\<open>undefined\<close>, a boolean and a plain object. A string is its own key, and the key of an
  array is its conversion to a string: an index when it is a decimal numeral in canonical
  form, a method when it is the name of one of the five, and otherwise \<open>Unknown\<close>: another
  inherited member (\<^verbatim>\<open>splice\<close>, \<^verbatim>\<open>sort\<close>, \<^verbatim>\<open>length\<close>, ...) or no property at all,
  which this model does not tell apart. \<open>None\<close> is the TypeError of an identifier that has
  no key.
\<close>

datatype 'f member = Element 'f | Missing | Method array_method | Unknown

definition array_elem :: "'f option list \<Rightarrow> nat \<Rightarrow> 'f member" where
  "array_elem xs n =
     (if n < length xs then (case xs ! n of None \<Rightarrow> Missing | Some f \<Rightarrow> Element f)
      else Missing)"

fun is_number :: "jsval \<Rightarrow> bool" where
  "is_number (JNum m k) = True"
| "is_number JNegZero = True"
| "is_number JInfinity = True"
| "is_number JNegInfinity = True"
| "is_number JNaN = True"
| "is_number v = False"

fun number_index :: "jsval \<Rightarrow> nat option" where
  "number_index (JNum m k) = (if k = 0 \<and> 0 \<le> m then Some (nat m) else None)"
| "number_index JNegZero = Some 0"
| "number_index v = None"

definition array_index_of_key :: "string \<Rightarrow> nat option" where
  "array_index_of_key s =
     (if s \<noteq> [] \<and> list_all is_digit s \<and> (s = ''0'' \<or> hd s \<noteq> CHR ''0'')
      then Some (nat (int_of_digits s)) else None)"

definition key_lookup :: "'f option list \<Rightarrow> string \<Rightarrow> 'f member" where
  "key_lookup xs s =
     (case array_index_of_key s of
        Some n \<Rightarrow> array_elem xs n
      | None \<Rightarrow> (case method_of_key s of Some m \<Rightarrow> Method m | None \<Rightarrow> Unknown))"

definition callbacks_get :: "'f option list \<Rightarrow> jsval \<Rightarrow> 'f member option" where
  "callbacks_get xs v =
     (if is_number v then
        Some (case number_index v of None \<Rightarrow> Missing | Some i \<Rightarrow> array_elem xs i)
      else
        (case v of
           JStr s \<Rightarrow> Some (key_lookup xs s)
         | JArr ys \<Rightarrow> map_option (key_lookup xs) (ToString v)
         | JObj kvs \<Rightarrow> map_option (\<lambda>s. Missing) (ToString v)
         | _ \<Rightarrow> Some Missing))"

section \<open>The Window class\<close>

text \<open>
  What a Window does to the outside is recorded, in order, in \<open>effects\<close>: the process it
  spawns and kills, the text it writes to the standard input of the process, the events it
  emits through \<^verbatim>\<open>EventEmitter.emit\<close> (name and payload arguments), the bound callbacks it
  calls (with their arguments) and the lines it logs. The callbacks are functions of the
  host program, of a type \<open>'f\<close> left open. What they and \<^verbatim>\<open>emit\<close> do when called
  belongs to the host program and to the \<^verbatim>\<open>events\<close> library and is not part of the
  model: an effect records the call and its arguments, and the call is taken to return.
\<close>

datatype 'f effect =
    Spawn "string list"
  | Kill
  | StdinWrite string
  | Emit jsval "jsval list"
  | Invoke 'f "jsval list"
  | ConsoleLog string

datatype subprocess = Subprocess (cmd: "string list")

record 'f window =
  config :: jsobj
  process :: "subprocess option"
  callbacks :: "'f option list"
  bindIndex :: nat
  effects :: "'f effect list"

definition DEBUG :: bool where
  "DEBUG = True"

text \<open>\<^verbatim>\<open>EXE_PATH = __dirname + '/../zig-out/bin/bunview'\<close>; the directory of the module is a
  parameter.\<close>

definition EXE_PATH :: "string \<Rightarrow> string" where
  "EXE_PATH dirname = dirname @ ''/../zig-out/bin/bunview''"

definition default_config :: jsobj where
  "default_config =
     [(''height'', JNum 320 0),
      (''width'', JNum 480 0),
      (''title'', JStr ''''),
      (''url'', JStr ''data:text/html,<html>Bunview</html>'')]"

text \<open>The four concatenations; one that has no conversion throws (\<open>None\<close>).\<close>

definition createConfigArgs :: "jsobj \<Rightarrow> string list option" where
  "createConfigArgs c =
     (case ToString (obj_get c ''height'') of
        None \<Rightarrow> None
      | Some h \<Rightarrow>
          (case ToString (obj_get c ''width'') of
             None \<Rightarrow> None
           | Some wd \<Rightarrow>
               (case ToString (obj_get c ''title'') of
                  None \<Rightarrow> None
                | Some t \<Rightarrow>
                    (case ToString (obj_get c ''url'') of
                       None \<Rightarrow> None
                     | Some u \<Rightarrow>
                         Some [''--height='' @ h, ''--width='' @ wd,
                               ''--title=\"'' @ t @ ''\"'', ''--url=\"'' @ u @ ''\"'']))))"

text \<open>
  \<^verbatim>\<open>display\<close> spawns the process; the two read loops it starts are \<open>stdout_loop\<close> and
  \<open>ioHandlers_stderr\<close> below. It is an \<^verbatim>\<open>async\<close> function whose promise the
  constructor drops: were the arguments to throw, the promise would be rejected and the
  Window left without a process.
\<close>

definition display :: "string \<Rightarrow> 'f window \<Rightarrow> 'f window" where
  "display dirname w =
     (case createConfigArgs (config w) of
        None \<Rightarrow> w
      | Some args \<Rightarrow>
          (let c = [EXE_PATH dirname] @ args in
           w\<lparr>process := Some (Subprocess c), effects := effects w @ [Spawn c]\<rparr>))"

text \<open>The field initialisers, then the constructor body: the merge
  \<^verbatim>\<open>this.config = {...config, ...this.config}\<close> and the call of \<^verbatim>\<open>display\<close>.\<close>

definition fields_init :: "'f window" where
  "fields_init =
     \<lparr>config = default_config, process = None, callbacks = [], bindIndex = 0, effects = []\<rparr>"

definition Window :: "string \<Rightarrow> jsobj \<Rightarrow> 'f window" where
  "Window dirname cfg =
     (let w = fields_init in
      display dirname (w\<lparr>config := obj_spread (obj_spread [] cfg) (config w)\<rparr>))"

subsection \<open>Methods\<close>

text \<open>
  A call returns with the new state, or throws with the state it has reached, or leaves the
  model (\<open>NotModelled\<close>: a read of the callback array under a name that is \<open>Unknown\<close>).
\<close>

datatype 'f outcome = Returned "'f window" | Threw js_error "'f window" | NotModelled

definition write_msg :: "'f window \<Rightarrow> jsval \<Rightarrow> jsval \<Rightarrow> 'f outcome" where
  "write_msg w type data =
     (case process w of
        None \<Rightarrow> Threw TypeError w
      | Some p \<Rightarrow>
          Returned (w\<lparr>effects := effects w @
            [StdinWrite (JSON_stringify (JObj [(''type'', type), (''data'', data)]) @
               [CHR 0x0A])]\<rparr>))"

text \<open>\<^verbatim>\<open>bind(name, callback)\<close>, with \<open>name\<close> a string as its documentation types it.\<close>

definition bind :: "'f window \<Rightarrow> string \<Rightarrow> 'f \<Rightarrow> 'f outcome" where
  "bind w name callback =
     (let w1 = w\<lparr>callbacks := array_set (callbacks w) (bindIndex w) callback\<rparr> in
      case write_msg w1 (JStr ''bind'') (JStr (dec (int (bindIndex w1)) @ '':'' @ name)) of
        Returned w2 \<Rightarrow> Returned (w2\<lparr>bindIndex := bindIndex w2 + 1\<rparr>)
      | other \<Rightarrow> other)"

definition setTitle :: "'f window \<Rightarrow> jsval \<Rightarrow> 'f outcome" where
  "setTitle w title = write_msg w (JStr ''setTitle'') title"

definition SizeHint_NONE :: jsval where
  "SizeHint_NONE = JNum 0 0"

definition setSize :: "'f window \<Rightarrow> jsval \<Rightarrow> jsval \<Rightarrow> jsval \<Rightarrow> 'f outcome" where
  "setSize w width height hint =
     (let h = (if hint = JUndef then SizeHint_NONE else hint) in
      case ToString width of
        None \<Rightarrow> Threw TypeError w
      | Some ws \<Rightarrow>
          (case ToString height of
             None \<Rightarrow> Threw TypeError w
           | Some hs \<Rightarrow>
               (case ToString h of
                  None \<Rightarrow> Threw TypeError w
                | Some hint_s \<Rightarrow>
                    write_msg w (JStr ''setSize'') (JStr (ws @ '':'' @ hs @ '':'' @ hint_s)))))"

definition navigate :: "'f window \<Rightarrow> jsval \<Rightarrow> 'f outcome" where
  "navigate w url = write_msg w (JStr ''navigate'') url"

definition eval_js :: "'f window \<Rightarrow> jsval \<Rightarrow> 'f outcome" where
  "eval_js w code = write_msg w (JStr ''eval'') code"

definition init :: "'f window \<Rightarrow> jsval \<Rightarrow> 'f outcome" where
  "init w code = write_msg w (JStr ''init'') code"

definition destroy :: "'f window \<Rightarrow> 'f outcome" where
  "destroy w =
     (case process w of
        None \<Rightarrow> Threw TypeError w
      | Some p \<Rightarrow> Returned (w\<lparr>effects := effects w @ [Kill, Emit (JStr ''close'') []]\<rparr>))"

subsection \<open>The handlers of the two streams\<close>

text \<open>
  \<open>dispatch\<close> is the body of \<^verbatim>\<open>ioHandlers.stdout\<close> after its first line, on the
  decoded message; \<open>ioHandlers_stdout\<close> is the handler on the text of a chunk. The three
  branches are \<open>on_event\<close>, \<open>on_internalEvent\<close> and \<open>on_bindCallback\<close>.
\<close>

definition on_event :: "'f window \<Rightarrow> jsval \<Rightarrow> 'f outcome" where
  "on_event w msg =
     (case get_prop msg ''data'' of
        None \<Rightarrow> Threw TypeError w
      | Some d \<Rightarrow>
          (case ToString d of
             None \<Rightarrow> Threw TypeError w
           | Some nested \<Rightarrow>
               (case JSON_parse nested of
                  Inl e \<Rightarrow> Threw e w
                | Inr evt \<Rightarrow>
                    (case get_prop evt ''event'' of
                       None \<Rightarrow> Threw TypeError w
                     | Some name \<Rightarrow>
                         (case loose_eq name ''close'' of
                            None \<Rightarrow> Threw TypeError w
                          | Some is_close \<Rightarrow>
                              if is_close then
                                (case process w of
                                   None \<Rightarrow> Threw TypeError w
                                 | Some p \<Rightarrow>
                                     Returned (w\<lparr>effects := effects w @ [Kill, Emit name []]\<rparr>))
                              else
                                (case get_prop evt ''data'' of
                                   None \<Rightarrow> Threw TypeError w
                                 | Some payload \<Rightarrow>
                                     if truthy payload
                                     then Returned (w\<lparr>effects := effects w @ [Emit name [payload]]\<rparr>)
                                     else Returned (w\<lparr>effects := effects w @ [Emit name []]\<rparr>)))))))"

definition on_internalEvent :: "'f window \<Rightarrow> jsval \<Rightarrow> 'f outcome" where
  "on_internalEvent w msg =
     (case get_prop msg ''data'' of
        None \<Rightarrow> Threw TypeError w
      | Some evt \<Rightarrow>
          (case get_prop evt ''event'' of
             None \<Rightarrow> Threw TypeError w
           | Some name \<Rightarrow>
               (case get_prop evt ''data'' of
                  None \<Rightarrow> Threw TypeError w
                | Some payload \<Rightarrow>
                    Returned (w\<lparr>effects := effects w @ [Emit name [payload]]\<rparr>))))"

definition on_bindCallback :: "'f window \<Rightarrow> jsval \<Rightarrow> 'f outcome" where
  "on_bindCallback w msg =
     (case get_prop msg ''id'' of
        None \<Rightarrow> Threw TypeError w
      | Some ident \<Rightarrow>
          (case get_prop msg ''data'' of
             None \<Rightarrow> Threw TypeError w
           | Some args \<Rightarrow>
               (case callbacks_get (callbacks w) ident of
                  None \<Rightarrow> Threw TypeError w
                | Some callee \<Rightarrow>
                    (case spread_args args of
                       None \<Rightarrow> Threw TypeError w
                     | Some argv \<Rightarrow>
                         (case callee of
                            Element f \<Rightarrow>
                              Returned (w\<lparr>effects := effects w @ [Invoke f argv]\<rparr>)
                          | Missing \<Rightarrow> Threw TypeError w
                          | Method m \<Rightarrow>
                              Returned (w\<lparr>callbacks := call_method m (callbacks w) argv\<rparr>)
                          | Unknown \<Rightarrow> NotModelled)))))"

definition dispatch :: "'f window \<Rightarrow> jsval \<Rightarrow> 'f outcome" where
  "dispatch w msg =
     (case get_prop msg ''type'' of
        None \<Rightarrow> Threw TypeError w
      | Some t \<Rightarrow>
          (case loose_eq t ''event'' of
             None \<Rightarrow> Threw TypeError w
           | Some is_event \<Rightarrow>
               if is_event then on_event w msg
               else
                 (case loose_eq t ''internalEvent'' of
                    None \<Rightarrow> Threw TypeError w
                  | Some is_internal \<Rightarrow>
                      if is_internal then on_internalEvent w msg
                      else
                        (case loose_eq t ''bindCallback'' of
                           None \<Rightarrow> Threw TypeError w
                         | Some is_callback \<Rightarrow>
                             if is_callback then on_bindCallback w msg
                             else Returned w))))"

definition ioHandlers_stdout :: "'f window \<Rightarrow> string \<Rightarrow> 'f outcome" where
  "ioHandlers_stdout w msg =
     (case JSON_parse msg of
        Inl e \<Rightarrow> Threw e w
      | Inr v \<Rightarrow> dispatch w v)"

definition ioHandlers_stderr :: "'f window \<Rightarrow> string \<Rightarrow> 'f window" where
  "ioHandlers_stderr w msg =
     (if DEBUG then w\<lparr>effects := effects w @ [ConsoleLog (''(debug) '' @ msg)]\<rparr> else w)"

text \<open>
  The read loop of \<^verbatim>\<open>display\<close> over the standard output: every chunk, decoded to text,
  is handed to the handler as it arrives; an exception of the handler ends the loop, and
  the chunks after it are never read.
\<close>

fun stdout_loop :: "'f window \<Rightarrow> string list \<Rightarrow> 'f outcome" where
  "stdout_loop w [] = Returned w"
| "stdout_loop w (chunk # chunks) =
     (case ioHandlers_stdout w chunk of
        Returned w' \<Rightarrow> stdout_loop w' chunks
      | other \<Rightarrow> other)"

subsection \<open>Sequences of calls\<close>

text \<open>The messages of a list dispatched in order, up to the first that does not return.\<close>

fun dispatch_all :: "'f window \<Rightarrow> jsval list \<Rightarrow> 'f outcome" where
  "dispatch_all w [] = Returned w"
| "dispatch_all w (msg # msgs) =
     (case dispatch w msg of
        Returned w' \<Rightarrow> dispatch_all w' msgs
      | other \<Rightarrow> other)"


text \<open>The state in which a call ends, by a return or by a throw.\<close>

fun ends_in :: "'f outcome \<Rightarrow> 'f window \<Rightarrow> bool" where
  "ends_in (Returned w') w = (w' = w)"
| "ends_in (Threw e w') w = (w' = w)"
| "ends_in NotModelled w = False"

text \<open>
  \<open>undisturbed w w'\<close>: the Window has gone from \<open>w\<close> to \<open>w'\<close> by calls of its methods and
  of its two handlers, none of which was an inbound chunk that changed the array of
  callbacks. \<^verbatim>\<open>setTitle\<close>, \<^verbatim>\<open>setSize\<close>, \<^verbatim>\<open>navigate\<close>, \<^verbatim>\<open>eval\<close> and
  \<^verbatim>\<open>init\<close> are calls of \<^verbatim>\<open>write\<close>, or throw before it and change nothing. Only a
  \<^verbatim>\<open>bindCallback\<close> envelope whose \<^verbatim>\<open>id\<close> names a method of the array changes the
  array (\<open>dispatch_changes_callbacks\<close> and \<open>callbacks_get_Method\<close> below). An inbound chunk
  on which the handler leaves the model has called an inherited member of the array on the
  array: that can change nothing of the Window but the array, and when it has left the
  array as it was the chunk is a step, too, whatever it added to the effects.
\<close>

inductive undisturbed :: "'f window \<Rightarrow> 'f window \<Rightarrow> bool" for w :: "'f window" where
  start: "undisturbed w w"
| bind_call: "undisturbed w w1 \<Longrightarrow> ends_in (bind w1 name g) w2 \<Longrightarrow> undisturbed w w2"
| write_call: "undisturbed w w1 \<Longrightarrow> ends_in (write_msg w1 type data) w2 \<Longrightarrow> undisturbed w w2"
| destroy_call: "undisturbed w w1 \<Longrightarrow> ends_in (destroy w1) w2 \<Longrightarrow> undisturbed w w2"
| display_call: "undisturbed w w1 \<Longrightarrow> undisturbed w (display dirname w1)"
| stderr_chunk: "undisturbed w w1 \<Longrightarrow> undisturbed w (ioHandlers_stderr w1 msg)"
| stdout_chunk:
    "undisturbed w w1 \<Longrightarrow> ends_in (ioHandlers_stdout w1 chunk) w2 \<Longrightarrow>
     callbacks w2 = callbacks w1 \<Longrightarrow> undisturbed w w2"
| unmodelled_chunk:
    "undisturbed w w1 \<Longrightarrow> ioHandlers_stdout w1 chunk = NotModelled \<Longrightarrow>
     w2 = w1\<lparr>effects := effects w1 @ added\<rparr> \<Longrightarrow> undisturbed w w2"

text \<open>The line that tells the native side to bind \<open>name\<close> under the identifier \<open>i\<close>.\<close>

definition bind_command :: "nat \<Rightarrow> string \<Rightarrow> string" where
  "bind_command i name =
     JSON_stringify (JObj [(''type'', JStr ''bind''), (''data'', JStr (dec (int i) @ '':'' @ name))])
       @ [CHR 0x0A]"

subsection \<open>The inbound lines of the scenarios\<close>

text \<open>\<^verbatim>\<open>{"type":"internalEvent","data":{"event":"ready","data":null}}\<close>\<close>

definition line_ready :: string where
  "line_ready = ''{\"type\":\"internalEvent\",\"data\":{\"event\":\"ready\",\"data\":null}}''"

text \<open>\<^verbatim>\<open>{"type":"event","data":"{\"event\":\"close\"}"}\<close>, the backslashes written as
  \<open>CHR 0x5C\<close>.\<close>

definition line_close :: string where
  "line_close =
     ''{\"type\":\"event\",\"data\":\"{'' @ [CHR 0x5C] @ ''\"event'' @ [CHR 0x5C] @ ''\":'' @
     [CHR 0x5C] @ ''\"close'' @ [CHR 0x5C] @ ''\"}\"}''"

text \<open>\<^verbatim>\<open>{"type":"bindCallback","id":0,"data":[2,3]}\<close>\<close>

definition line_add :: string where
  "line_add = ''{\"type\":\"bindCallback\",\"id\":0,\"data\":[2,3]}''"

text \<open>\<^verbatim>\<open>{"type":"bindCallback","id":"pop","data":[]}\<close>\<close>

definition line_pop :: string where
  "line_pop = ''{\"type\":\"bindCallback\",\"id\":\"pop\",\"data\":[]}''"

text \<open>\<^verbatim>\<open>{"type":"bindCallback","id":"unshift","data":[null]}\<close>\<close>

definition line_unshift :: string where
  "line_unshift = ''{\"type\":\"bindCallback\",\"id\":\"unshift\",\"data\":[null]}''"

text \<open>\<^verbatim>\<open>{"type":"bindCallback","id":1,"data":[]}\<close>\<close>

definition line_one :: string where
  "line_one = ''{\"type\":\"bindCallback\",\"id\":1,\"data\":[]}''"

text \<open>The state of a new Window after \<^verbatim>\<open>bind("add", f)\<close>, in which \<open>f\<close> has the
  identifier \<open>0\<close> (\<open>bind_Window_add\<close> below).\<close>

definition Window_add :: "'f \<Rightarrow> 'f window" where
  "Window_add f =
     (Window [] [])\<lparr>callbacks := [Some f],
        effects := effects (Window [] []) @ [StdinWrite (bind_command 0 ''add'')],
        bindIndex := 1\<rparr>"


section \<open>Configuration\<close>

lemma obj_get_obj_set: "obj_get (obj_set k v obj) k' = (if k' = k then v else obj_get obj k')"
  by (induction obj) (auto simp: obj_get_def)

lemma obj_get_fold_obj_set:
  "obj_get (fold (\<lambda>(k, v). obj_set k v) src target) k' =
     (case map_of (rev src) k' of None \<Rightarrow> obj_get target k' | Some v \<Rightarrow> v)"
proof (induction src arbitrary: target)
  case Nil
  show ?case by simp
next
  case (Cons p src)
  obtain k v where p: "p = (k, v)" by (cases p)
  show ?case
    by (simp add: p Cons.IH obj_get_obj_set map_add_def split: option.split)
qed

lemma obj_get_spread_defaults:
  "k \<in> {''height'', ''width'', ''title'', ''url''} \<Longrightarrow>
   obj_get (obj_spread target default_config) k = obj_get default_config k"
  by (auto simp: obj_spread_def obj_get_fold_obj_set) (simp_all add: default_config_def obj_get_def)

lemma config_Window:
  "config (Window dirname cfg) = obj_spread (obj_spread [] cfg) default_config"
  by (simp add: Window_def display_def fields_init_def Let_def split: option.split)

lemma obj_get_config_Window:
  "obj_get (config (Window dirname cfg)) ''height'' = JNum 320 0"
  "obj_get (config (Window dirname cfg)) ''width'' = JNum 480 0"
  "obj_get (config (Window dirname cfg)) ''title'' = JStr ''''"
  "obj_get (config (Window dirname cfg)) ''url'' = JStr ''data:text/html,<html>Bunview</html>''"
  by (simp_all add: config_Window obj_get_spread_defaults) (simp_all add: default_config_def obj_get_def)

lemma Number_toString_320: "Number_toString 320 0 = ''320''"
  by code_simp

lemma Number_toString_480: "Number_toString 480 0 = ''480''"
  by code_simp

lemma createConfigArgs_Window:
  "createConfigArgs (config (Window dirname cfg)) =
     Some [''--height=320'', ''--width=480'', ''--title=\"\"'',
       ''--url=\"data:text/html,<html>Bunview</html>\"'']"
  by (simp add: createConfigArgs_def obj_get_config_Window Number_toString_320
      Number_toString_480)

lemma Window_eq:
  "Window dirname cfg =
     \<lparr>config = obj_spread (obj_spread [] cfg) default_config,
      process = Some (Subprocess [EXE_PATH dirname, ''--height=320'', ''--width=480'',
        ''--title=\"\"'', ''--url=\"data:text/html,<html>Bunview</html>\"'']),
      callbacks = [], bindIndex = 0,
      effects = [Spawn [EXE_PATH dirname, ''--height=320'', ''--width=480'',
        ''--title=\"\"'', ''--url=\"data:text/html,<html>Bunview</html>\"'']]\<rparr>"
proof -
  have c: "createConfigArgs (obj_spread (obj_spread [] cfg) default_config) =
     Some [''--height=320'', ''--width=480'', ''--title=\"\"'',
       ''--url=\"data:text/html,<html>Bunview</html>\"'']"
    using createConfigArgs_Window [of dirname cfg] by (simp only: config_Window)
  show ?thesis
    by (simp add: Window_def display_def fields_init_def Let_def c)
qed

lemma process_Window:
  "process (Window dirname cfg) =
     Some (Subprocess [EXE_PATH dirname, ''--height=320'', ''--width=480'',
        ''--title=\"\"'', ''--url=\"data:text/html,<html>Bunview</html>\"''])"
  by (simp add: Window_eq)

lemma effects_Window:
  "effects (Window dirname cfg) =
     [Spawn [EXE_PATH dirname, ''--height=320'', ''--width=480'',
        ''--title=\"\"'', ''--url=\"data:text/html,<html>Bunview</html>\"'']]"
  by (simp add: Window_eq)

lemma callbacks_Window:
  "callbacks (Window dirname cfg) = []" "bindIndex (Window dirname cfg) = 0"
  by (simp_all add: Window_eq)

lemma Window_registry:
  "length (callbacks (Window dirname cfg)) = bindIndex (Window dirname cfg)"
  by (simp add: callbacks_Window)

text \<open>
  C1. The constructor merges the defaults over the caller's record, so for the four
  configuration fields the default always wins: on \<^verbatim>\<open>{width:800,height:600,title:"T"}\<close> the
  process is spawned with \<^verbatim>\<open>--height=320 --width=480 --title=""\<close>, not with the caller's
  values.
\<close>

theorem constructor_defaults_override_caller:
  "effects (Window dirname
       [(''width'', JNum 800 0), (''height'', JNum 600 0), (''title'', JStr ''T'')] :: 'f window) =
     [Spawn [EXE_PATH dirname, ''--height=320'', ''--width=480'', ''--title=\"\"'',
        ''--url=\"data:text/html,<html>Bunview</html>\"'']]"
  by (rule effects_Window)

section \<open>The scenario lines, decoded\<close>

lemma parse_ready:
  "JSON_parse line_ready =
     Inr (JObj [(''type'', JStr ''internalEvent''),
                (''data'', JObj [(''event'', JStr ''ready''), (''data'', JNull)])])"
  by code_simp

lemma parse_ready_nl:
  "JSON_parse (line_ready @ [CHR 0x0A]) =
     Inr (JObj [(''type'', JStr ''internalEvent''),
                (''data'', JObj [(''event'', JStr ''ready''), (''data'', JNull)])])"
  by code_simp

lemma parse_close:
  "JSON_parse line_close =
     Inr (JObj [(''type'', JStr ''event''), (''data'', JStr ''{\"event\":\"close\"}'')])"
  by code_simp

lemma parse_close_nl:
  "JSON_parse (line_close @ [CHR 0x0A]) =
     Inr (JObj [(''type'', JStr ''event''), (''data'', JStr ''{\"event\":\"close\"}'')])"
  by code_simp

lemma parse_close_nested:
  "JSON_parse ''{\"event\":\"close\"}'' = Inr (JObj [(''event'', JStr ''close'')])"
  by code_simp

lemma parse_add:
  "JSON_parse line_add =
     Inr (JObj [(''type'', JStr ''bindCallback''), (''id'', JNum 0 0),
                (''data'', JArr [JNum 2 0, JNum 3 0])])"
  by code_simp

lemma parse_pop:
  "JSON_parse line_pop =
     Inr (JObj [(''type'', JStr ''bindCallback''), (''id'', JStr ''pop''), (''data'', JArr [])])"
  by code_simp

lemma parse_partial:
  "JSON_parse ''{\"type\":\"internalEvent\",'' = Inl SyntaxError"
  by code_simp

lemma parse_two_lines:
  "JSON_parse (line_ready @ [CHR 0x0A] @ line_close @ [CHR 0x0A]) = Inl SyntaxError"
  by code_simp

lemma parse_resize:
  "JSON_parse ''{\"type\":\"resize\",\"data\":\"x\"}'' =
     Inr (JObj [(''type'', JStr ''resize''), (''data'', JStr ''x'')])"
  by code_simp

lemma parse_no_type:
  "JSON_parse ''{\"data\":\"x\"}'' = Inr (JObj [(''data'', JStr ''x'')])"
  by code_simp

lemma parse_type_object:
  "JSON_parse ''{\"type\":{\"toString\":1},\"data\":\"x\"}'' =
     Inr (JObj [(''type'', JObj [(''toString'', JNum 1 0)]), (''data'', JStr ''x'')])"
  by code_simp

lemma parse_unknown_id:
  "JSON_parse ''{\"type\":\"bindCallback\",\"id\":7,\"data\":[2,3]}'' =
     Inr (JObj [(''type'', JStr ''bindCallback''), (''id'', JNum 7 0),
                (''data'', JArr [JNum 2 0, JNum 3 0])])"
  by code_simp

lemma parse_null_id:
  "JSON_parse ''{\"type\":\"bindCallback\",\"id\":null,\"data\":[]}'' =
     Inr (JObj [(''type'', JStr ''bindCallback''), (''id'', JNull), (''data'', JArr [])])"
  by code_simp



lemma parse_unshift:
  "JSON_parse line_unshift =
     Inr (JObj [(''type'', JStr ''bindCallback''), (''id'', JStr ''unshift''),
                (''data'', JArr [JNull])])"
  by code_simp

lemma parse_one:
  "JSON_parse line_one =
     Inr (JObj [(''type'', JStr ''bindCallback''), (''id'', JNum 1 0), (''data'', JArr [])])"
  by code_simp

section \<open>The codec\<close>

text \<open>A string quoted by \<^verbatim>\<open>JSON.stringify\<close> is read back by \<^verbatim>\<open>JSON.parse\<close>: first
  character by character, then as a value and as a member of an object.\<close>

lemma hexval_hex_digit: "n < 16 \<Longrightarrow> hexval (hex_digit n) = Some n"
  by (auto simp: hexval_def hex_digit_def Let_def)

lemma hex4_control:
  "n < 32 \<Longrightarrow> hex4 (CHR ''0'') (CHR ''0'') (hex_digit (n div 16)) (hex_digit (n mod 16)) = Some n"
proof -
  assume n: "n < 32"
  have z: "hexval (CHR ''0'') = Some 0" by (simp add: hexval_def)
  have "n div 16 < 16" "n mod 16 < 16" using n by auto
  then show ?thesis
    by (simp add: hex4_def z hexval_hex_digit)
qed

lemma units_to_string_low:
  "n < 0xD800 \<Longrightarrow> units_to_string (Unit n # us) = utf8 n @ units_to_string us"
  by (cases us rule: units_to_string.cases) auto

lemma utf8_ascii: "of_char c < (128::nat) \<Longrightarrow> utf8 (of_char c) = [c]"
  by (simp add: utf8_def)

lemma string_chars_quote_char:
  assumes "string_chars tail = Some (us, rest)"
  shows "\<exists>vs. string_chars (quote_char c @ tail) = Some (vs @ us, rest) \<and>
           (\<forall>ws. units_to_string (vs @ ws) = c # units_to_string ws)"
proof -
  consider (short) "c \<in> {CHR 0x08, CHR 0x09, CHR 0x0A, CHR 0x0C, CHR 0x0D, CHR 0x22, CHR 0x5C}"
    | (control) "c \<notin> {CHR 0x08, CHR 0x09, CHR 0x0A, CHR 0x0C, CHR 0x0D, CHR 0x22, CHR 0x5C}"
        "of_char c < (32::nat)"
    | (plain) "c \<notin> {CHR 0x08, CHR 0x09, CHR 0x0A, CHR 0x0C, CHR 0x0D, CHR 0x22, CHR 0x5C}"
        "\<not> of_char c < (32::nat)"
    by blast
  then show ?thesis
  proof cases
    case short
    then have "string_chars (quote_char c @ tail) = Some ([Byte c] @ us, rest)"
      using assms by (auto simp: quote_char_def escape_char_def)
    then show ?thesis by (intro exI [of _ "[Byte c]"]) simp
  next
    case control
    then have "string_chars (quote_char c @ tail) = Some ([Unit (of_char c)] @ us, rest)"
      using assms by (simp add: quote_char_def hex4_control)
    moreover have "units_to_string ([Unit (of_char c)] @ ws) = c # units_to_string ws" for ws
      using control(2) by (simp add: units_to_string_low utf8_ascii)
    ultimately show ?thesis by blast
  next
    case plain
    then have "string_chars (quote_char c @ tail) = Some ([Byte c] @ us, rest)"
      using assms by (simp add: quote_char_def)
    then show ?thesis by (intro exI [of _ "[Byte c]"]) simp
  qed
qed

lemma string_chars_quoted:
  "\<exists>us. string_chars (concat (map quote_char s) @ CHR 0x22 # rest) = Some (us, rest) \<and>
        units_to_string us = s"
proof (induction s)
  case Nil
  show ?case by simp
next
  case (Cons c s)
  then obtain us where us: "string_chars (concat (map quote_char s) @ CHR 0x22 # rest) = Some (us, rest)"
    and s: "units_to_string us = s" by blast
  from string_chars_quote_char [OF us, of c]
  obtain vs where "string_chars (quote_char c @ concat (map quote_char s) @ CHR 0x22 # rest) = Some (vs @ us, rest)"
    and "\<And>ws. units_to_string (vs @ ws) = c # units_to_string ws" by blast
  then show ?case by (simp add: s)
qed

lemma skip_ws_Cons: "\<not> is_ws c \<Longrightarrow> skip_ws (c # cs) = c # cs"
  by (simp add: skip_ws_def)

lemma parse_value_quoted:
  "parse_value (Suc n) (QuoteJSONString s @ rest) = Some (JStr s, rest)"
proof -
  obtain us where "string_chars (concat (map quote_char s) @ CHR 0x22 # rest) = Some (us, rest)"
    and "units_to_string us = s"
    using string_chars_quoted by blast
  then show ?thesis
    by (simp add: QuoteJSONString_def skip_ws_Cons is_ws_def)
qed

lemma parse_members_last:
  "parse_members (Suc (Suc n)) acc (QuoteJSONString k @ CHR '':'' # QuoteJSONString v @ CHR ''}'' # rest) =
     Some (obj_set k (JStr v) acc, rest)"
proof -
  obtain us where us: "string_chars (concat (map quote_char k) @ CHR 0x22 # CHR '':'' # QuoteJSONString v @ CHR ''}'' # rest)
      = Some (us, CHR '':'' # QuoteJSONString v @ CHR ''}'' # rest)"
    and k: "units_to_string us = k"
    using string_chars_quoted by blast
  have q: "QuoteJSONString k @ CHR '':'' # QuoteJSONString v @ CHR ''}'' # rest =
     CHR 0x22 # concat (map quote_char k) @ CHR 0x22 # CHR '':'' # QuoteJSONString v @ CHR ''}'' # rest"
    by (simp add: QuoteJSONString_def)
  show ?thesis
    unfolding q
    by (simp add: skip_ws_Cons is_ws_def us k parse_value_quoted del: parse_value.simps)
qed

lemma parse_members_more:
  "parse_members (Suc (Suc n)) acc (QuoteJSONString k @ CHR '':'' # QuoteJSONString v @ CHR '','' # rest) =
     parse_members (Suc n) (obj_set k (JStr v) acc) rest"
proof -
  obtain us where us: "string_chars (concat (map quote_char k) @ CHR 0x22 # CHR '':'' # QuoteJSONString v @ CHR '','' # rest)
      = Some (us, CHR '':'' # QuoteJSONString v @ CHR '','' # rest)"
    and k: "units_to_string us = k"
    using string_chars_quoted by blast
  have q: "QuoteJSONString k @ CHR '':'' # QuoteJSONString v @ CHR '','' # rest =
     CHR 0x22 # concat (map quote_char k) @ CHR 0x22 # CHR '':'' # QuoteJSONString v @ CHR '','' # rest"
    by (simp add: QuoteJSONString_def)
  show ?thesis
    unfolding q
    by (subst parse_members.simps(2))
      (simp add: skip_ws_Cons is_ws_def us k parse_value_quoted
        del: parse_value.simps parse_members.simps)
qed

lemma stringify_envelope:
  "JSON_stringify (JObj [(''type'', JStr t), (''data'', JStr d)]) =
     CHR ''{'' # QuoteJSONString ''type'' @ CHR '':'' # QuoteJSONString t @ CHR '','' #
       QuoteJSONString ''data'' @ CHR '':'' # QuoteJSONString d @ ''}''"
  by simp

lemma parse_value_object:
  "parse_value (Suc n) (CHR ''{'' # CHR 0x22 # text) =
     map_option (apfst JObj) (parse_members n [] (CHR 0x22 # text))"
  by (simp add: skip_ws_Cons is_ws_def del: parse_members.simps)

lemma QuoteJSONString_Cons: "QuoteJSONString s @ rest = CHR 0x22 # tl (QuoteJSONString s) @ rest"
  by (simp add: QuoteJSONString_def)

lemma parse_value_envelope:
  "parse_value (Suc (Suc (Suc (Suc n))))
     (CHR ''{'' # QuoteJSONString ''type'' @ CHR '':'' # QuoteJSONString t @ CHR '','' #
       QuoteJSONString ''data'' @ CHR '':'' # QuoteJSONString d @ CHR ''}'' # rest) =
     Some (JObj [(''type'', JStr t), (''data'', JStr d)], rest)"
proof -
  let ?members = "QuoteJSONString ''type'' @ CHR '':'' # QuoteJSONString t @ CHR '','' #
       QuoteJSONString ''data'' @ CHR '':'' # QuoteJSONString d @ CHR ''}'' # rest"
  have "parse_value (Suc (Suc (Suc (Suc n)))) (CHR ''{'' # ?members) =
     map_option (apfst JObj) (parse_members (Suc (Suc (Suc n))) [] ?members)"
    using parse_value_object [of "Suc (Suc (Suc n))"
        "tl (QuoteJSONString ''type'') @ CHR '':'' # QuoteJSONString t @ CHR '','' #
       QuoteJSONString ''data'' @ CHR '':'' # QuoteJSONString d @ CHR ''}'' # rest"]
    by (simp only: QuoteJSONString_Cons [of "''type''", symmetric])
  also have "\<dots> = Some (JObj (obj_set ''data'' (JStr d) (obj_set ''type'' (JStr t) [])), rest)"
    by (simp only: parse_members_more parse_members_last option.map apfst_conv)
  also have "\<dots> = Some (JObj [(''type'', JStr t), (''data'', JStr d)], rest)"
    by simp
  finally show ?thesis .
qed

lemma JSON_parse_envelope:
  "JSON_parse (JSON_stringify (JObj [(''type'', JStr t), (''data'', JStr d)]) @ [CHR 0x0A]) =
     Inr (JObj [(''type'', JStr t), (''data'', JStr d)])"
proof -
  define ln where "ln = JSON_stringify (JObj [(''type'', JStr t), (''data'', JStr d)]) @ [CHR 0x0A]"
  have shape: "ln = CHR ''{'' # QuoteJSONString ''type'' @ CHR '':'' # QuoteJSONString t @
      CHR '','' # QuoteJSONString ''data'' @ CHR '':'' # QuoteJSONString d @ CHR ''}'' # [CHR 0x0A]"
    unfolding ln_def by (simp only: stringify_envelope append_Cons append_assoc append_Nil)
  have "3 \<le> length ln"
    unfolding shape by simp
  then have len: "Suc (length ln) = Suc (Suc (Suc (Suc (length ln - 3))))"
    by arith
  have "parse_value (Suc (Suc (Suc (Suc (length ln - 3))))) ln =
      Some (JObj [(''type'', JStr t), (''data'', JStr d)], [CHR 0x0A])"
    by (subst (2) shape) (rule parse_value_envelope)
  then have pv: "parse_value (Suc (length ln)) ln =
      Some (JObj [(''type'', JStr t), (''data'', JStr d)], [CHR 0x0A])"
    by (simp only: len)
  have "JSON_parse ln = Inr (JObj [(''type'', JStr t), (''data'', JStr d)])"
    by (simp only: JSON_parse_def pv) (simp add: skip_ws_def is_ws_def)
  then show ?thesis
    by (simp only: ln_def)
qed

lemma hex_digit_not_newline: "n < 16 \<Longrightarrow> hex_digit n \<noteq> CHR 0x0A"
proof
  assume n: "n < 16" and "hex_digit n = CHR 0x0A"
  then have "of_char (hex_digit n) = (10::nat)" by simp
  with n show False
    by (auto simp: hex_digit_def split: if_splits)
qed

lemma newline_notin_quote_char: "CHR 0x0A \<notin> set (quote_char c)"
proof (cases "of_char c < (32::nat)")
  case True
  then have "of_char c div 16 < (16::nat)" "of_char c mod 16 < (16::nat)" by auto
  then show ?thesis
    using hex_digit_not_newline [of "of_char c div 16"] hex_digit_not_newline [of "of_char c mod 16"]
    by (auto simp: quote_char_def)
next
  case False
  then have "c \<noteq> CHR 0x0A" by auto
  with False show ?thesis
    by (auto simp: quote_char_def)
qed

lemma newline_notin_QuoteJSONString: "CHR 0x0A \<notin> set (QuoteJSONString s)"
  by (auto simp: QuoteJSONString_def newline_notin_quote_char)

lemma newline_notin_envelope:
  "CHR 0x0A \<notin> set (JSON_stringify (JObj [(''type'', JStr t), (''data'', JStr d)]))"
  by (simp only: stringify_envelope) (simp add: newline_notin_QuoteJSONString)

text \<open>
  C6. \<^verbatim>\<open>write(type, data)\<close> with two strings sends one line, the envelope followed by
  a newline and with no newline inside; decoding that line as the inbound handler does, with
  \<^verbatim>\<open>JSON.parse\<close>, gives the record \<open>{type, data}\<close> back. This holds for every string
  \<open>type\<close>, the six outbound command types among them.
\<close>

theorem write_then_decode_roundtrip:
  "process w = Some p \<Longrightarrow>
   \<exists>body. write_msg w (JStr t) (JStr d) =
            Returned (w\<lparr>effects := effects w @ [StdinWrite (body @ [CHR 0x0A])]\<rparr>) \<and>
          CHR 0x0A \<notin> set body \<and>
          JSON_parse (body @ [CHR 0x0A]) = Inr (JObj [(''type'', JStr t), (''data'', JStr d)])"
  by (intro exI [of _ "JSON_stringify (JObj [(''type'', JStr t), (''data'', JStr d)])"] conjI)
    (simp_all only: JSON_parse_envelope newline_notin_envelope not_False_eq_True,
      simp add: write_msg_def)

theorem write_then_decode_roundtrip_witness:
  "(case write_msg (Window [] [] :: nat window) (JStr ''setTitle'') (JStr (''a\"b'' @ [CHR 0x0A, CHR 0x5C, CHR 0x01])) of
      Returned w \<Rightarrow> (case last (effects w) of
          StdinWrite ln \<Rightarrow> JSON_parse ln = Inr (JObj [(''type'', JStr ''setTitle''),
             (''data'', JStr (''a\"b'' @ [CHR 0x0A, CHR 0x5C, CHR 0x01]))])
        | _ \<Rightarrow> False)
    | _ \<Rightarrow> False)"
proof -
  from write_then_decode_roundtrip [OF process_Window, of "[]" "[]" "''setTitle''" "''a\"b'' @ [CHR 0x0A, CHR 0x5C, CHR 0x01]"]
  obtain body where "write_msg (Window [] [] :: nat window) (JStr ''setTitle'') (JStr (''a\"b'' @ [CHR 0x0A, CHR 0x5C, CHR 0x01])) =
            Returned ((Window [] [])\<lparr>effects := effects (Window [] []) @ [StdinWrite (body @ [CHR 0x0A])]\<rparr>)"
    and "JSON_parse (body @ [CHR 0x0A]) = Inr (JObj [(''type'', JStr ''setTitle''),
             (''data'', JStr (''a\"b'' @ [CHR 0x0A, CHR 0x5C, CHR 0x01]))])"
    by blast
  then show ?thesis by simp
qed

section \<open>The read loop\<close>

lemma stdout_loop_dispatch_all:
  "list_all2 (\<lambda>chunk msg. JSON_parse chunk = Inr msg) chunks msgs \<Longrightarrow>
   stdout_loop w chunks = dispatch_all w msgs"
proof (induction chunks msgs arbitrary: w rule: list_all2_induct)
  case Nil
  show ?case by simp
next
  case (Cons chunk chunks msg msgs)
  show ?case
    by (cases "dispatch w msg") (simp_all add: ioHandlers_stdout_def Cons)
qed

lemma stdout_loop_SyntaxError:
  "JSON_parse chunk = Inl e \<Longrightarrow> stdout_loop w (chunk # rest) = Threw e w"
  by (simp add: ioHandlers_stdout_def)

lemma stdout_ready:
  "ioHandlers_stdout w line_ready =
     Returned (w\<lparr>effects := effects w @ [Emit (JStr ''ready'') [JNull]]\<rparr>)"
  by (simp add: ioHandlers_stdout_def parse_ready dispatch_def on_internalEvent_def
      get_prop_def obj_get_def loose_eq_def)

text \<open>
  C2, as the code has it. The loop keeps no buffer and does not split on newlines: each
  chunk is parsed on its own as one JSON text. When every chunk is one complete envelope
  the envelopes are dispatched one for each chunk, in the order of the chunks; a chunk that
  is not one JSON text (a part of a line, or more than one line) raises the SyntaxError
  of \<^verbatim>\<open>JSON.parse\<close>, which ends the loop.
\<close>

theorem stdout_loop_parses_each_chunk_alone:
  "(list_all2 (\<lambda>chunk msg. JSON_parse chunk = Inr msg) chunks msgs \<longrightarrow>
      stdout_loop w chunks = dispatch_all w msgs) \<and>
   (JSON_parse chunk = Inl e \<longrightarrow> stdout_loop w (chunk # rest) = Threw e w)"
  by (intro conjI impI) (erule stdout_loop_dispatch_all, erule stdout_loop_SyntaxError)

theorem stdout_loop_parses_each_chunk_alone_witness:
  "stdout_loop (Window [] [] :: nat window) [line_ready @ [CHR 0x0A], line_close @ [CHR 0x0A]] =
     dispatch_all (Window [] [])
       [JObj [(''type'', JStr ''internalEvent''),
              (''data'', JObj [(''event'', JStr ''ready''), (''data'', JNull)])],
        JObj [(''type'', JStr ''event''), (''data'', JStr ''{\"event\":\"close\"}'')]] \<and>
   stdout_loop (Window [] [] :: nat window)
       [line_ready @ [CHR 0x0A] @ line_close @ [CHR 0x0A], line_ready] =
     Threw SyntaxError (Window [] [])"
proof -
  have 1: "list_all2 (\<lambda>chunk msg. JSON_parse chunk = Inr msg)
      [line_ready @ [CHR 0x0A], line_close @ [CHR 0x0A]]
      [JObj [(''type'', JStr ''internalEvent''),
             (''data'', JObj [(''event'', JStr ''ready''), (''data'', JNull)])],
       JObj [(''type'', JStr ''event''), (''data'', JStr ''{\"event\":\"close\"}'')]]"
    by (simp only: list_all2_Cons list_all2_Nil parse_ready_nl parse_close_nl simp_thms)
  show ?thesis
    using stdout_loop_parses_each_chunk_alone
      [of "[line_ready @ [CHR 0x0A], line_close @ [CHR 0x0A]]"
        "[JObj [(''type'', JStr ''internalEvent''),
                (''data'', JObj [(''event'', JStr ''ready''), (''data'', JNull)])],
          JObj [(''type'', JStr ''event''), (''data'', JStr ''{\"event\":\"close\"}'')]]"
        "Window [] [] :: nat window" "line_ready @ [CHR 0x0A] @ line_close @ [CHR 0x0A]"
        SyntaxError "[line_ready]"]
      1 parse_two_lines by blast
qed

text \<open>The line of the \<^verbatim>\<open>ready\<close> event in one chunk is dispatched; the same bytes in two
  chunks, cut after the first member, raise a SyntaxError and nothing is dispatched.\<close>

theorem chunking_invariance_counterexample:
  "concat [''{\"type\":\"internalEvent\",'',
           ''\"data\":{\"event\":\"ready\",\"data\":null}}'' @ [CHR 0x0A]] =
     concat [line_ready @ [CHR 0x0A]] \<and>
   stdout_loop (Window [] [] :: nat window) [line_ready @ [CHR 0x0A]] =
     Returned ((Window [] [])\<lparr>effects :=
       effects (Window [] [] :: nat window) @ [Emit (JStr ''ready'') [JNull]]\<rparr>) \<and>
   stdout_loop (Window [] [] :: nat window)
     [''{\"type\":\"internalEvent\",'',
      ''\"data\":{\"event\":\"ready\",\"data\":null}}'' @ [CHR 0x0A]] =
     Threw SyntaxError (Window [] [])"
proof (intro conjI)
  show "concat [''{\"type\":\"internalEvent\",'',
           ''\"data\":{\"event\":\"ready\",\"data\":null}}'' @ [CHR 0x0A]] =
     concat [line_ready @ [CHR 0x0A]]"
    by (simp add: line_ready_def)
  have "stdout_loop (Window [] [] :: nat window) [line_ready @ [CHR 0x0A]] =
      dispatch_all (Window [] [])
        [JObj [(''type'', JStr ''internalEvent''),
               (''data'', JObj [(''event'', JStr ''ready''), (''data'', JNull)])]]"
    by (rule stdout_loop_dispatch_all) (simp add: parse_ready_nl)
  also have "\<dots> = Returned ((Window [] [])\<lparr>effects :=
       effects (Window [] [] :: nat window) @ [Emit (JStr ''ready'') [JNull]]\<rparr>)"
    by (simp add: dispatch_def on_internalEvent_def get_prop_def obj_get_def loose_eq_def)
  finally show "stdout_loop (Window [] [] :: nat window) [line_ready @ [CHR 0x0A]] =
     Returned ((Window [] [])\<lparr>effects :=
       effects (Window [] [] :: nat window) @ [Emit (JStr ''ready'') [JNull]]\<rparr>)" .
  show "stdout_loop (Window [] [] :: nat window)
     [''{\"type\":\"internalEvent\",'',
      ''\"data\":{\"event\":\"ready\",\"data\":null}}'' @ [CHR 0x0A]] =
     Threw SyntaxError (Window [] [])"
    by (rule stdout_loop_SyntaxError [OF parse_partial])
qed

section \<open>The callback registry\<close>

subsection \<open>\<^verbatim>\<open>bind\<close>\<close>

lemma bind_process:
  "process w = Some p \<Longrightarrow>
   bind w name f =
     Returned (w\<lparr>callbacks := array_set (callbacks w) (bindIndex w) f,
        effects := effects w @ [StdinWrite (bind_command (bindIndex w) name)],
        bindIndex := Suc (bindIndex w)\<rparr>)"
  by (simp add: bind_def write_msg_def Let_def bind_command_def)

lemma bind_no_process:
  "process w = None \<Longrightarrow>
   bind w name f = Threw TypeError (w\<lparr>callbacks := array_set (callbacks w) (bindIndex w) f\<rparr>)"
  by (simp add: bind_def write_msg_def Let_def)

lemma bind_Returned:
  "process w = Some p \<Longrightarrow> length (callbacks w) = bindIndex w \<Longrightarrow>
   bind w name f =
     Returned (w\<lparr>callbacks := callbacks w @ [Some f],
        effects := effects w @ [StdinWrite (bind_command (bindIndex w) name)],
        bindIndex := Suc (bindIndex w)\<rparr>)"
  by (simp add: bind_process array_set_def)


lemma bind_Window_add: "bind (Window [] []) ''add'' f = Returned (Window_add f)"
  using bind_Returned [OF process_Window Window_registry, of "[]" "[]" "''add''" f]
  by (simp add: Window_add_def callbacks_Window)

lemma array_set_other:
  "i < length xs \<Longrightarrow> i \<noteq> j \<Longrightarrow>
   i < length (array_set xs j v) \<and> array_set xs j v ! i = xs ! i"
  by (simp add: array_set_def nth_append)

lemma array_set_same:
  "i < length (array_set xs i v) \<and> array_set xs i v ! i = Some v"
  by (simp add: array_set_def nth_append)


subsection \<open>What the handlers leave as it is\<close>

lemma on_event_frame:
  "ends_in (on_event w msg) w' \<Longrightarrow>
   process w' = process w \<and> bindIndex w' = bindIndex w \<and> callbacks w' = callbacks w"
  by (auto simp: on_event_def split: option.splits sum.splits if_splits)

lemma on_internalEvent_frame:
  "ends_in (on_internalEvent w msg) w' \<Longrightarrow>
   process w' = process w \<and> bindIndex w' = bindIndex w \<and> callbacks w' = callbacks w"
  by (auto simp: on_internalEvent_def split: option.splits)

lemma on_bindCallback_frame:
  "ends_in (on_bindCallback w msg) w' \<Longrightarrow>
   process w' = process w \<and> bindIndex w' = bindIndex w"
  by (auto simp: on_bindCallback_def split: option.splits member.splits)

lemma dispatch_cases:
  "dispatch w msg = Threw TypeError w \<or> dispatch w msg = Returned w \<or>
   dispatch w msg = on_event w msg \<or> dispatch w msg = on_internalEvent w msg \<or>
   dispatch w msg = on_bindCallback w msg"
  by (simp add: dispatch_def split: option.split)

lemma dispatch_frame:
  assumes "ends_in (dispatch w msg) w'"
  shows "process w' = process w \<and> bindIndex w' = bindIndex w"
  using dispatch_cases [of w msg] assms
    on_event_frame [of w msg w'] on_internalEvent_frame [of w msg w']
    on_bindCallback_frame [of w msg w']
  by (elim disjE) simp_all

lemma ioHandlers_stdout_frame:
  "ends_in (ioHandlers_stdout w chunk) w' \<Longrightarrow>
   process w' = process w \<and> bindIndex w' = bindIndex w"
  using dispatch_frame [of w _ w']
  by (auto simp: ioHandlers_stdout_def split: sum.splits)

text \<open>The handler changes the array of callbacks only when it calls one of the methods
  of the array on it.\<close>

lemma on_bindCallback_changes_callbacks:
  "ends_in (on_bindCallback w msg) w' \<Longrightarrow> callbacks w' \<noteq> callbacks w \<Longrightarrow>
   \<exists>ident m argv. get_prop msg ''id'' = Some ident \<and>
     callbacks_get (callbacks w) ident = Some (Method m) \<and>
     callbacks w' = call_method m (callbacks w) argv"
  by (auto simp: on_bindCallback_def split: option.splits member.splits)

lemma dispatch_changes_callbacks:
  assumes "ends_in (dispatch w msg) w'" and "callbacks w' \<noteq> callbacks w"
  shows "\<exists>ident m argv. get_prop msg ''id'' = Some ident \<and>
     callbacks_get (callbacks w) ident = Some (Method m) \<and>
     callbacks w' = call_method m (callbacks w) argv"
  using dispatch_cases [of w msg] assms
    on_event_frame [of w msg w'] on_internalEvent_frame [of w msg w']
    on_bindCallback_changes_callbacks [of w msg w']
  by (elim disjE) simp_all

lemma callbacks_get_Method:
  "callbacks_get xs ident = Some (Method m) \<Longrightarrow>
   \<exists>s. (ident = JStr s \<or> (\<exists>ys. ident = JArr ys \<and> ToString ident = Some s)) \<and>
       method_of_key s = Some m"
  by (cases ident)
    (auto simp: callbacks_get_def key_lookup_def array_elem_def
      split: option.splits if_splits)

subsection \<open>The registry while no inbound envelope changes it\<close>

lemma display_frame:
  "callbacks (display dirname w) = callbacks w \<and> bindIndex (display dirname w) = bindIndex w \<and>
   (process w \<noteq> None \<longrightarrow> process (display dirname w) \<noteq> None)"
  by (simp add: display_def Let_def split: option.split)

lemma undisturbed_registry:
  assumes "undisturbed w0 w" and "process w0 \<noteq> None"
    and "length (callbacks w0) = bindIndex w0"
  shows "process w \<noteq> None \<and> length (callbacks w) = bindIndex w"
  using assms
proof (induction rule: undisturbed.induct)
  case start
  then show ?case by simp
next
  case (bind_call w1 name g w2)
  then obtain p where p: "process w1 = Some p" and l: "length (callbacks w1) = bindIndex w1"
    by auto
  from bind_call.hyps(2) show ?case
    by (auto simp: bind_Returned [OF p l] p l)
next
  case (write_call w1 type data w2)
  then obtain p where p: "process w1 = Some p" and l: "length (callbacks w1) = bindIndex w1"
    by auto
  from write_call.hyps(2) show ?case
    by (auto simp: write_msg_def p l)
next
  case (destroy_call w1 w2)
  then obtain p where p: "process w1 = Some p" and l: "length (callbacks w1) = bindIndex w1"
    by auto
  from destroy_call.hyps(2) show ?case
    by (auto simp: destroy_def p l)
next
  case (display_call w1 dirname)
  then show ?case using display_frame [of dirname w1] by simp
next
  case (stderr_chunk w1 msg)
  then show ?case by (simp add: ioHandlers_stderr_def)
next
  case (stdout_chunk w1 chunk w2)
  then have p: "process w1 \<noteq> None" and l: "length (callbacks w1) = bindIndex w1"
    by simp_all
  from ioHandlers_stdout_frame [OF stdout_chunk.hyps(2)] stdout_chunk.hyps(3) show ?case
    by (simp add: p l)
next
  case (unmodelled_chunk w1 chunk w2 added)
  then show ?case by simp
qed

lemma undisturbed_keeps_entry:
  assumes "undisturbed w1 w2" and "process w1 \<noteq> None"
    and "i < bindIndex w1" and "i < length (callbacks w1)" and "callbacks w1 ! i = Some f"
  shows "process w2 \<noteq> None \<and> i < bindIndex w2 \<and> i < length (callbacks w2) \<and>
         callbacks w2 ! i = Some f"
  using assms
proof (induction rule: undisturbed.induct)
  case start
  then show ?case by simp
next
  case (bind_call w' name g w'')
  then obtain p where inv: "process w' = Some p" "i < bindIndex w'" "i < length (callbacks w')"
      "callbacks w' ! i = Some f"
    by auto
  from inv(2) have ne: "i \<noteq> bindIndex w'" by simp
  from bind_call.hyps(2) show ?case
    using array_set_other [OF inv(3) ne, of g] inv
    by (auto simp: bind_process [OF inv(1)])
next
  case (write_call w' type data w'')
  then obtain p where inv: "process w' = Some p" "i < bindIndex w'" "i < length (callbacks w')"
      "callbacks w' ! i = Some f"
    by auto
  from write_call.hyps(2) show ?case
    by (auto simp: write_msg_def inv)
next
  case (destroy_call w' w'')
  then obtain p where inv: "process w' = Some p" "i < bindIndex w'" "i < length (callbacks w')"
      "callbacks w' ! i = Some f"
    by auto
  from destroy_call.hyps(2) show ?case
    by (auto simp: destroy_def inv)
next
  case (display_call w' dirname)
  then show ?case using display_frame [of dirname w'] by simp
next
  case (stderr_chunk w' msg)
  then show ?case by (simp add: ioHandlers_stderr_def)
next
  case (stdout_chunk w' chunk w'')
  then have inv: "process w' \<noteq> None" "i < bindIndex w'" "i < length (callbacks w')"
      "callbacks w' ! i = Some f"
    by simp_all
  from ioHandlers_stdout_frame [OF stdout_chunk.hyps(2)] stdout_chunk.hyps(3) show ?case
    by (simp add: inv)
next
  case (unmodelled_chunk w' chunk w'' added)
  then show ?case by simp
qed

lemma undisturbed_Window_add: "undisturbed (Window [] []) (Window_add f)"
  by (rule bind_call [OF start, of _ "''add''" f]) (simp add: bind_Window_add)

subsection \<open>Identifiers that were not issued\<close>

lemma callbacks_get_unissued:
  assumes "\<forall>s. ident \<noteq> JStr s" and "\<forall>ys. ident \<noteq> JArr ys"
    and "\<forall>i<length xs. number_index ident \<noteq> Some i"
  shows "callbacks_get xs ident = None \<or> callbacks_get xs ident = Some Missing"
  using assms
  by (cases ident) (auto simp: callbacks_get_def array_elem_def split: option.splits)

lemma on_bindCallback_Missing:
  assumes "callbacks_get (callbacks w) (obj_get env ''id'') = None \<or>
      callbacks_get (callbacks w) (obj_get env ''id'') = Some Missing"
  shows "on_bindCallback w (JObj env) = Threw TypeError w"
  using assms
  by (auto simp: on_bindCallback_def get_prop_def split: option.splits)

lemma dispatch_bindCallback:
  "obj_get env ''type'' = JStr ''bindCallback'' \<Longrightarrow>
   dispatch w (JObj env) = on_bindCallback w (JObj env)"
  by (simp add: dispatch_def get_prop_def loose_eq_def)

text \<open>
  C3, as the code has it. Take a Window whose array of callbacks no inbound envelope has
  changed since its construction, so that the identifiers issued are \<open>0, \<dots>, bindIndex - 1\<close>,
  and a \<^verbatim>\<open>bindCallback\<close> envelope whose \<^verbatim>\<open>id\<close> is not a string or an array and is not
  one of these numbers (another number, \<^verbatim>\<open>null\<close>, a boolean, an object, or no
  \<^verbatim>\<open>id\<close> at all). The handler throws a TypeError, that of calling \<^verbatim>\<open>undefined\<close>
  or of an identifier that is no property key; there is no error class of its own. Nothing
  catches it, so it ends the read loop, and the Window is as it was: no callable has been
  called.
\<close>

theorem unissued_id_throws_TypeError:
  assumes "undisturbed (Window dirname cfg) w"
    and "JSON_parse line = Inr (JObj env)"
    and "obj_get env ''type'' = JStr ''bindCallback''"
    and "\<forall>s. obj_get env ''id'' \<noteq> JStr s"
    and "\<forall>ys. obj_get env ''id'' \<noteq> JArr ys"
    and "\<forall>i<bindIndex w. number_index (obj_get env ''id'') \<noteq> Some i"
  shows "ioHandlers_stdout w line = Threw TypeError w \<and>
         stdout_loop w (line # rest) = Threw TypeError w"
proof -
  have "length (callbacks w) = bindIndex w"
    using undisturbed_registry [OF assms(1) _ Window_registry] by (simp add: process_Window)
  with assms(6) have "\<forall>i<length (callbacks w). number_index (obj_get env ''id'') \<noteq> Some i"
    by simp
  from callbacks_get_unissued [OF assms(4,5) this]
  have "on_bindCallback w (JObj env) = Threw TypeError w"
    by (rule on_bindCallback_Missing)
  then have "ioHandlers_stdout w line = Threw TypeError w"
    by (simp add: ioHandlers_stdout_def assms(2) dispatch_bindCallback [OF assms(3)])
  then show ?thesis by simp
qed

theorem unissued_id_throws_TypeError_witness:
  "ioHandlers_stdout (Window_add (0::nat))
       ''{\"type\":\"bindCallback\",\"id\":7,\"data\":[2,3]}'' =
     Threw TypeError (Window_add 0) \<and>
   stdout_loop (Window_add (0::nat))
       [''{\"type\":\"bindCallback\",\"id\":null,\"data\":[]}'', line_add] =
     Threw TypeError (Window_add 0)"
proof -
  have b: "bindIndex (Window_add (0::nat)) = 1"
    by (simp add: Window_add_def)
  have "ioHandlers_stdout (Window_add (0::nat))
       ''{\"type\":\"bindCallback\",\"id\":7,\"data\":[2,3]}'' =
     Threw TypeError (Window_add 0)"
    using unissued_id_throws_TypeError
      [OF undisturbed_Window_add [of "0::nat"] parse_unknown_id, of "[]"]
    by (simp add: obj_get_def b)
  moreover have "stdout_loop (Window_add (0::nat))
       [''{\"type\":\"bindCallback\",\"id\":null,\"data\":[]}'', line_add] =
     Threw TypeError (Window_add 0)"
    using unissued_id_throws_TypeError
      [OF undisturbed_Window_add [of "0::nat"] parse_null_id, of "[line_add]"]
    by (simp add: obj_get_def b)
  ultimately show ?thesis by simp
qed

text \<open>
  An identifier that was not issued need not fail. After \<^verbatim>\<open>bind("add", f)\<close> on a new
  Window the only identifier issued is \<open>0\<close>. The envelope with the identifier \<^verbatim>\<open>"pop"\<close> does
  not fail: the handler runs \<^verbatim>\<open>Array.prototype.pop\<close> on the array of callbacks and
  returns, and \<open>f\<close> is gone. And after the envelope with the identifier \<^verbatim>\<open>"unshift"\<close>
  the identifier \<open>1\<close>, never issued either, calls \<open>f\<close>.
\<close>

theorem unissued_id_counterexample:
  "bind (Window [] []) ''add'' (0::nat) = Returned (Window_add 0) \<and>
   ioHandlers_stdout (Window_add (0::nat)) line_pop =
     Returned ((Window_add 0)\<lparr>callbacks := []\<rparr>) \<and>
   stdout_loop (Window_add (0::nat)) [line_unshift, line_one] =
     Returned ((Window_add 0)\<lparr>callbacks := [None, Some 0],
       effects := effects (Window_add 0) @ [Invoke 0 []]\<rparr>)"
proof (intro conjI)
  show "bind (Window [] []) ''add'' (0::nat) = Returned (Window_add 0)"
    by (rule bind_Window_add)
  show "ioHandlers_stdout (Window_add (0::nat)) line_pop =
     Returned ((Window_add 0)\<lparr>callbacks := []\<rparr>)"
    by (simp add: ioHandlers_stdout_def parse_pop dispatch_bindCallback obj_get_def
        on_bindCallback_def get_prop_def callbacks_get_def key_lookup_def
        array_index_of_key_def is_digit_def method_of_key_def spread_args_def Window_add_def)
  have 1: "ioHandlers_stdout (Window_add (0::nat)) line_unshift =
     Returned ((Window_add 0)\<lparr>callbacks := [None, Some 0]\<rparr>)"
    by (simp add: ioHandlers_stdout_def parse_unshift dispatch_bindCallback obj_get_def
        on_bindCallback_def get_prop_def callbacks_get_def key_lookup_def
        array_index_of_key_def is_digit_def method_of_key_def spread_args_def Window_add_def)
  have 2: "ioHandlers_stdout ((Window_add (0::nat))\<lparr>callbacks := [None, Some 0]\<rparr>) line_one =
     Returned ((Window_add 0)\<lparr>callbacks := [None, Some 0],
       effects := effects (Window_add 0) @ [Invoke 0 []]\<rparr>)"
    by (simp add: ioHandlers_stdout_def parse_one dispatch_bindCallback obj_get_def
        on_bindCallback_def get_prop_def callbacks_get_def array_elem_def spread_args_def)
  show "stdout_loop (Window_add (0::nat)) [line_unshift, line_one] =
     Returned ((Window_add 0)\<lparr>callbacks := [None, Some 0],
       effects := effects (Window_add 0) @ [Invoke 0 []]\<rparr>)"
    by (simp add: 1 2)
qed

text \<open>
  C8, as the code has it. Let \<^verbatim>\<open>bind(name, f)\<close> return on a Window in any state, and let
  any calls of the methods and of the two handlers follow, none of them an inbound chunk
  that changes the array of callbacks. A \<^verbatim>\<open>bindCallback\<close> envelope with the identifier
  that \<^verbatim>\<open>bind\<close> gave to \<open>f\<close> and with the argument list \<open>args\<close> then calls \<open>f\<close> once
  with \<open>args\<close>, and does nothing else. On a new Window, after \<^verbatim>\<open>bind("add", f)\<close>, the
  line \<^verbatim>\<open>{"type":"bindCallback","id":0,"data":[2,3]}\<close> calls \<open>f\<close> with \<open>(2, 3)\<close>.
\<close>

theorem bound_callable_invoked_while_undisturbed:
  assumes "bind w name f = Returned w1"
    and "undisturbed w1 w2"
    and "JSON_parse line = Inr (JObj env)"
    and "obj_get env ''type'' = JStr ''bindCallback''"
    and "obj_get env ''id'' = JNum (int (bindIndex w)) 0"
    and "obj_get env ''data'' = JArr args"
  shows "ioHandlers_stdout w2 line = Returned (w2\<lparr>effects := effects w2 @ [Invoke f args]\<rparr>)"
proof -
  obtain p where p: "process w = Some p"
    using assms(1) bind_no_process [of w name f] by (cases "process w") simp_all
  have w1: "w1 = w\<lparr>callbacks := array_set (callbacks w) (bindIndex w) f,
        effects := effects w @ [StdinWrite (bind_command (bindIndex w) name)],
        bindIndex := Suc (bindIndex w)\<rparr>"
    using assms(1) bind_process [OF p, of name f] by simp
  have "process w1 \<noteq> None" "bindIndex w < bindIndex w1"
      "bindIndex w < length (callbacks w1)" "callbacks w1 ! bindIndex w = Some f"
    using p array_set_same [of "bindIndex w" "callbacks w" f] by (simp_all add: w1)
  from undisturbed_keeps_entry [OF assms(2) this]
  have "bindIndex w < length (callbacks w2)" "callbacks w2 ! bindIndex w = Some f"
    by simp_all
  then have "callbacks_get (callbacks w2) (JNum (int (bindIndex w)) 0) = Some (Element f)"
    by (simp add: callbacks_get_def array_elem_def)
  then show ?thesis
    by (simp add: ioHandlers_stdout_def assms(3) dispatch_bindCallback [OF assms(4)]
        on_bindCallback_def get_prop_def assms(5,6) spread_args_def)
qed

theorem bound_callable_invoked_while_undisturbed_witness:
  "bind (Window [] []) ''add'' (0::nat) = Returned (Window_add 0) \<and>
   ioHandlers_stdout (ioHandlers_stderr (Window_add (0::nat)) ''log'') line_add =
     Returned ((ioHandlers_stderr (Window_add 0) ''log'')\<lparr>effects :=
       effects (ioHandlers_stderr (Window_add 0) ''log'') @
         [Invoke 0 [JNum 2 0, JNum 3 0]]\<rparr>)"
proof -
  have u: "undisturbed (Window_add (0::nat)) (ioHandlers_stderr (Window_add 0) ''log'')"
    by (rule stderr_chunk [OF start])
  show ?thesis
    using bound_callable_invoked_while_undisturbed
      [OF bind_Window_add [of "0::nat"] u parse_add, of "[JNum 2 0, JNum 3 0]"]
    by (simp add: bind_Window_add obj_get_def callbacks_Window)
qed

text \<open>
  A registered callable can be lost. After \<^verbatim>\<open>bind("add", f)\<close> on a new Window,
  \<open>f\<close> has the identifier \<open>0\<close>. Once the inbound envelope with the identifier
  \<^verbatim>\<open>"pop"\<close> has been handled, the line \<^verbatim>\<open>{"type":"bindCallback","id":0,"data":[2,3]}\<close>
  does not call \<open>f\<close>: the handler throws a TypeError, and the effects of the Window are
  those before the two lines.
\<close>

theorem bound_callable_lost_counterexample:
  "bind (Window [] []) ''add'' (0::nat) = Returned (Window_add 0) \<and>
   stdout_loop (Window_add (0::nat)) [line_pop, line_add] =
     Threw TypeError ((Window_add 0)\<lparr>callbacks := []\<rparr>)"
proof (intro conjI)
  show "bind (Window [] []) ''add'' (0::nat) = Returned (Window_add 0)"
    by (rule bind_Window_add)
  have 1: "ioHandlers_stdout (Window_add (0::nat)) line_pop =
     Returned ((Window_add 0)\<lparr>callbacks := []\<rparr>)"
    by (simp add: ioHandlers_stdout_def parse_pop dispatch_bindCallback obj_get_def
        on_bindCallback_def get_prop_def callbacks_get_def key_lookup_def
        array_index_of_key_def is_digit_def method_of_key_def spread_args_def Window_add_def)
  have 2: "ioHandlers_stdout ((Window_add (0::nat))\<lparr>callbacks := []\<rparr>) line_add =
     Threw TypeError ((Window_add 0)\<lparr>callbacks := []\<rparr>)"
    by (simp add: ioHandlers_stdout_def parse_add dispatch_bindCallback obj_get_def
        on_bindCallback_def get_prop_def callbacks_get_def array_elem_def spread_args_def)
  show "stdout_loop (Window_add (0::nat)) [line_pop, line_add] =
     Threw TypeError ((Window_add 0)\<lparr>callbacks := []\<rparr>)"
    by (simp add: 1 2)
qed

section \<open>Dispatch of events\<close>

text \<open>
  C4, as the code has it. The line
  \<^verbatim>\<open>{"type":"internalEvent","data":{"event":"ready","data":null}}\<close> emits \<^verbatim>\<open>ready\<close>
  with one payload argument, the \<^verbatim>\<open>null\<close> of the nested \<^verbatim>\<open>data\<close> field: the
  \<^verbatim>\<open>internalEvent\<close> branch always passes \<^verbatim>\<open>evt.data\<close> on.
\<close>

theorem internalEvent_ready_emits_null_payload:
  "ioHandlers_stdout w line_ready =
     Returned (w\<lparr>effects := effects w @ [Emit (JStr ''ready'') [JNull]]\<rparr>)"
  by (rule stdout_ready)

text \<open>The emission of \<^verbatim>\<open>ready\<close> is not the one without a payload argument.\<close>

theorem internalEvent_ready_no_payload_counterexample:
  "ioHandlers_stdout (Window [] [] :: nat window) line_ready \<noteq>
     Returned ((Window [] [])\<lparr>effects :=
       effects (Window [] [] :: nat window) @ [Emit (JStr ''ready'') []]\<rparr>)"
proof
  assume "ioHandlers_stdout (Window [] [] :: nat window) line_ready =
     Returned ((Window [] [])\<lparr>effects :=
       effects (Window [] [] :: nat window) @ [Emit (JStr ''ready'') []]\<rparr>)"
  then have "effects ((Window [] [] :: nat window)\<lparr>effects :=
        effects (Window [] [] :: nat window) @ [Emit (JStr ''ready'') [JNull]]\<rparr>) =
      effects ((Window [] [] :: nat window)\<lparr>effects :=
        effects (Window [] [] :: nat window) @ [Emit (JStr ''ready'') []]\<rparr>)"
    by (simp only: stdout_ready outcome.inject)
  then show False by simp
qed

text \<open>
  C9. On a Window with its process, the line
  \<^verbatim>\<open>{"type":"event","data":"{\"event\":\"close\"}"}\<close> kills the process and then emits
  \<^verbatim>\<open>close\<close> once, without payload.
\<close>

theorem close_event_kills_then_emits_close:
  "process w = Some p \<Longrightarrow>
   ioHandlers_stdout w line_close =
     Returned (w\<lparr>effects := effects w @ [Kill, Emit (JStr ''close'') []]\<rparr>)"
  by (simp add: ioHandlers_stdout_def parse_close parse_close_nested dispatch_def on_event_def
      get_prop_def obj_get_def loose_eq_def)

theorem close_event_kills_then_emits_close_witness:
  "ioHandlers_stdout (Window [] [] :: nat window) line_close =
     Returned ((Window [] [])\<lparr>effects :=
       effects (Window [] [] :: nat window) @ [Kill, Emit (JStr ''close'') []]\<rparr>)"
  using close_event_kills_then_emits_close [of "Window [] [] :: nat window"]
  by (simp add: process_Window)

subsection \<open>The payload of an event\<close>







subsection \<open>Envelopes of another type\<close>

lemma dispatch_other_type:
  "get_prop msg ''type'' = Some t \<Longrightarrow> loose_eq t ''event'' = Some False \<Longrightarrow>
   loose_eq t ''internalEvent'' = Some False \<Longrightarrow> loose_eq t ''bindCallback'' = Some False \<Longrightarrow>
   dispatch w msg = Returned w"
  by (simp add: dispatch_def)

lemma dispatch_type_TypeError:
  "get_prop msg ''type'' = Some t \<Longrightarrow> loose_eq t ''event'' = None \<Longrightarrow>
   dispatch w msg = Threw TypeError w"
  by (simp add: dispatch_def)

text \<open>When the comparisons of the handler throw, and what they give on a string.\<close>

lemma loose_eq_None: "loose_eq t lit = None \<longleftrightarrow> ToString t = None"
  by (cases t) (simp_all add: loose_eq_def)

lemma loose_eq_JStr: "loose_eq (JStr s) lit = Some (s = lit)"
  by (simp add: loose_eq_def)

text \<open>
  C5, as the code has it. A decoded envelope whose \<^verbatim>\<open>type\<close> is equal to none of
  \<^verbatim>\<open>event\<close>, \<^verbatim>\<open>internalEvent\<close> and \<^verbatim>\<open>bindCallback\<close> passes the three tests of the
  handler, which has no last \<^verbatim>\<open>else\<close>: the handler returns, and nothing is emitted, called,
  logged or raised. Only a \<^verbatim>\<open>type\<close> that cannot be compared, because it has no conversion
  to a string, makes the first test throw a TypeError; the Window is as it was then, too.
\<close>

theorem unknown_type_is_ignored:
  assumes "JSON_parse line = Inr msg" and "get_prop msg ''type'' = Some t"
  shows "(loose_eq t ''event'' = Some False \<and> loose_eq t ''internalEvent'' = Some False \<and>
          loose_eq t ''bindCallback'' = Some False \<longrightarrow>
            ioHandlers_stdout w line = Returned w) \<and>
         (loose_eq t ''event'' = None \<longrightarrow> ioHandlers_stdout w line = Threw TypeError w)"
  using assms
  by (simp add: ioHandlers_stdout_def dispatch_other_type dispatch_type_TypeError)

theorem unknown_type_is_ignored_witness:
  "ioHandlers_stdout (Window [] [] :: nat window) ''{\"type\":\"resize\",\"data\":\"x\"}'' =
     Returned (Window [] []) \<and>
   ioHandlers_stdout (Window [] [] :: nat window) ''{\"data\":\"x\"}'' =
     Returned (Window [] []) \<and>
   ioHandlers_stdout (Window [] [] :: nat window) ''{\"type\":{\"toString\":1},\"data\":\"x\"}'' =
     Threw TypeError (Window [] [])"
  using
    unknown_type_is_ignored [OF parse_resize, of "JStr ''resize''" "Window [] [] :: nat window"]
    unknown_type_is_ignored [OF parse_no_type, of JUndef "Window [] [] :: nat window"]
    unknown_type_is_ignored [OF parse_type_object, of "JObj [(''toString'', JNum 1 0)]"
      "Window [] [] :: nat window"]
  by (simp add: get_prop_def obj_get_def loose_eq_def)

text \<open>An envelope of the unknown type \<^verbatim>\<open>resize\<close> on a new Window: the handler returns,
  and the only effect of the Window is still the spawn of its process.\<close>

theorem unknown_type_dropped_counterexample:
  "ioHandlers_stdout (Window [] [] :: nat window) ''{\"type\":\"resize\",\"data\":\"x\"}'' =
     Returned (Window [] []) \<and>
   effects (Window [] [] :: nat window) =
     [Spawn [EXE_PATH [], ''--height=320'', ''--width=480'', ''--title=\"\"'',
        ''--url=\"data:text/html,<html>Bunview</html>\"'']]"
  by (simp add: ioHandlers_stdout_def parse_resize dispatch_other_type get_prop_def obj_get_def
      loose_eq_def effects_Window)

end
